theory Spec2Isabelle
  imports Main "HOL-Library.Log_Nat" "HOL-Library.AList" "HOL-Library.Multiset"
begin

section \<open>Python numbers\<close>

text \<open>
  A Python \<^verbatim>\<open>float\<close> is an IEEE 754 binary64 number. A finite one is modelled by
  the rational it denotes, and every arithmetic operation rounds its exact result to
  the nearest binary64 value, ties to the even significand, as the hardware does:
  \<open>fl q\<close> is that rounding. The significand has 53 bits; below \<open>2 powi - 1022\<close>
  the spacing stays at \<open>2 powi - 1074\<close> (subnormal numbers). Infinities, NaN and the
  sign of zero are not modelled: no operation of the audit reaches \<open>2 powi 1024\<close>
  on the finding counts a list can hold.
\<close>

definition rhe :: "rat \<Rightarrow> int" where
  \<comment> \<open>round to the nearest integer, a tie to the even one\<close>
  "rhe x = (let f = \<lfloor>x\<rfloor>; d = x - of_int f
            in if d < 1/2 then f else if 1/2 < d then f + 1
               else if even f then f else f + 1)"

definition ilog2 :: "rat \<Rightarrow> int" where
  \<comment> \<open>for \<open>0 < q\<close> the integer \<open>e\<close> with \<open>2 powi e \<le> q < 2 powi (e + 1)\<close>\<close>
  "ilog2 q = (if 1 \<le> q then int (floorlog 2 (nat \<lfloor>q\<rfloor>)) - 1
              else - int (floorlog 2 (nat (\<lceil>1 / q\<rceil> - 1))))"

definition fexp :: "rat \<Rightarrow> int" where
  "fexp q = max (ilog2 \<bar>q\<bar>) (- 1022)"

definition ulp :: "rat \<Rightarrow> rat" where
  "ulp q = 2 powi (fexp q - 52)"

definition fl :: "rat \<Rightarrow> rat" where
  "fl q = (if q = 0 then 0 else of_int (rhe (q / ulp q)) * ulp q)"

definition fadd :: "rat \<Rightarrow> rat \<Rightarrow> rat" where
  \<comment> \<open>\<^verbatim>\<open>x + y\<close> on floats\<close>
  "fadd x y = fl (x + y)"

definition fmul :: "rat \<Rightarrow> rat \<Rightarrow> rat" where
  \<comment> \<open>\<^verbatim>\<open>x * y\<close> on floats\<close>
  "fmul x y = fl (x * y)"

definition fdiv :: "rat \<Rightarrow> rat \<Rightarrow> rat" where
  \<comment> \<open>\<^verbatim>\<open>x / y\<close> on floats, and on a float and an int that a float holds exactly\<close>
  "fdiv x y = fl (x / y)"

definition int_truediv :: "int \<Rightarrow> int \<Rightarrow> rat" where
  \<comment> \<open>\<^verbatim>\<open>a / b\<close> on ints: the correctly rounded quotient\<close>
  "int_truediv a b = fl (of_int a / of_int b)"

definition round1 :: "rat \<Rightarrow> rat" where
  \<comment> \<open>\<^verbatim>\<open>round(x, 1)\<close>: the exact value of \<open>x\<close> rounded to one decimal, a tie to the
      even digit, and the decimal read back as a float\<close>
  "round1 x = fl (of_int (rhe (x * 10)) / 10)"

definition round0 :: "rat \<Rightarrow> int" where
  \<comment> \<open>\<^verbatim>\<open>round(x)\<close>: an int\<close>
  "round0 x = rhe x"

definition fsum :: "rat list \<Rightarrow> rat" where
  \<comment> \<open>\<^verbatim>\<open>sum(xs)\<close> on floats: additions from the left, starting at 0 (CPython before
      3.12; later versions carry a compensation term through the same loop)\<close>
  "fsum xs = foldl fadd 0 xs"

section \<open>Dictionaries\<close>

text \<open>
  A \<^verbatim>\<open>dict\<close> keeps its keys in insertion order, so it is an association list with
  distinct keys: \<open>AList.update k v d\<close> is \<^verbatim>\<open>d[k] = v\<close> (the value replaced in place,
  or the pair appended), \<open>dict_get d k x\<close> is \<^verbatim>\<open>d.get(k, x)\<close>, and the list itself
  is \<^verbatim>\<open>d.items()\<close>. Two dicts are equal in Python when \<open>map_of\<close> agrees on them.
\<close>

definition dict_get :: "('k \<times> 'v) list \<Rightarrow> 'k \<Rightarrow> 'v \<Rightarrow> 'v" where
  "dict_get d k x = (case map_of d k of None \<Rightarrow> x | Some v \<Rightarrow> v)"

section \<open>Python strings\<close>

text \<open>
  Text read from a file is a list of Unicode code points. The strings the program
  itself supplies (severities, categories, descriptions) and the paths and industry
  names it is given are \<open>string\<close>s, their characters the code points below U+0100.
\<close>

type_synonym codepoints = "nat list"

definition lower_char :: "char \<Rightarrow> char" where
  \<comment> \<open>\<^verbatim>\<open>str.lower\<close> on one character below U+0100\<close>
  "lower_char c =
     (let n = of_char c :: nat
      in if (65 \<le> n \<and> n \<le> 90) \<or> (192 \<le> n \<and> n \<le> 222 \<and> n \<noteq> 215)
         then char_of (n + 32) else c)"

definition lower :: "string \<Rightarrow> string" where
  "lower s = map lower_char s"

fun startswith :: "'a list \<Rightarrow> 'a list \<Rightarrow> bool" where
  \<comment> \<open>\<^verbatim>\<open>s.startswith(t)\<close>, the string first\<close>
  "startswith s [] = True"
| "startswith [] (y # t) = False"
| "startswith (x # s) (y # t) = (x = y \<and> startswith s t)"

fun str_in :: "'a list \<Rightarrow> 'a list \<Rightarrow> bool" where
  \<comment> \<open>\<^verbatim>\<open>t in s\<close>: \<open>t\<close> occurs in \<open>s\<close> as a substring\<close>
  "str_in t [] = (t = [])"
| "str_in t (x # s) = (startswith (x # s) t \<or> str_in t s)"

definition is_space :: "nat \<Rightarrow> bool" where
  \<comment> \<open>the code points of \<^verbatim>\<open>str.isspace\<close>, which \<^verbatim>\<open>\s\<close> and \<^verbatim>\<open>strip\<close> share\<close>
  "is_space c =
     ((9 \<le> c \<and> c \<le> 13) \<or> (28 \<le> c \<and> c \<le> 32) \<or> c = 0x85 \<or> c = 0xA0 \<or> c = 0x1680
      \<or> (0x2000 \<le> c \<and> c \<le> 0x200A) \<or> c = 0x2028 \<or> c = 0x2029 \<or> c = 0x202F
      \<or> c = 0x205F \<or> c = 0x3000)"

definition strip :: "codepoints \<Rightarrow> codepoints" where
  \<comment> \<open>\<^verbatim>\<open>line.strip()\<close>\<close>
  "strip l = rev (dropWhile is_space (rev (dropWhile is_space l)))"

fun split_newline :: "codepoints \<Rightarrow> codepoints list" where
  \<comment> \<open>\<^verbatim>\<open>content.split('\n')\<close>: never empty, the last line what follows the last newline\<close>
  "split_newline [] = [[]]"
| "split_newline (c # cs) =
     (if c = 10 then [] # split_newline cs
      else (case split_newline cs of [] \<Rightarrow> [[c]] | l # ls \<Rightarrow> (c # l) # ls))"

section \<open>Regular expressions\<close>

text \<open>
  The patterns of the catalog use literals, character classes, \<^verbatim>\<open>.\<close>, \<^verbatim>\<open>\s\<close>,
  alternation and the repetitions \<^verbatim>\<open>*\<close>, \<^verbatim>\<open>+\<close>, \<^verbatim>\<open>?\<close> and \<^verbatim>\<open>{n,}\<close>: regular
  languages, for which whether \<^verbatim>\<open>re.search\<close> finds a match does not depend on the
  order in which the engine backtracks. A pattern is a regular expression over code
  points with predicates as atoms, matched by derivatives.
\<close>

datatype rexp =
    Zero
  | One
  | Atom "nat \<Rightarrow> bool"
  | Alt rexp rexp
  | Seq rexp rexp
  | Star rexp

fun nullable :: "rexp \<Rightarrow> bool" where
  "nullable Zero = False"
| "nullable One = True"
| "nullable (Atom p) = False"
| "nullable (Alt r s) = (nullable r \<or> nullable s)"
| "nullable (Seq r s) = (nullable r \<and> nullable s)"
| "nullable (Star r) = True"

fun alt :: "rexp \<Rightarrow> rexp \<Rightarrow> rexp" where
  "alt Zero s = s"
| "alt r Zero = r"
| "alt r s = Alt r s"

fun seq :: "rexp \<Rightarrow> rexp \<Rightarrow> rexp" where
  "seq Zero s = Zero"
| "seq r Zero = Zero"
| "seq One s = s"
| "seq r One = r"
| "seq r s = Seq r s"

fun deriv :: "nat \<Rightarrow> rexp \<Rightarrow> rexp" where
  \<comment> \<open>what may follow the code point \<open>c\<close> in a match\<close>
  "deriv c Zero = Zero"
| "deriv c One = Zero"
| "deriv c (Atom p) = (if p c then One else Zero)"
| "deriv c (Alt r s) = alt (deriv c r) (deriv c s)"
| "deriv c (Seq r s) =
     (if nullable r then alt (seq (deriv c r) s) (deriv c s) else seq (deriv c r) s)"
| "deriv c (Star r) = seq (deriv c r) (Star r)"

fun match_here :: "rexp \<Rightarrow> codepoints \<Rightarrow> bool" where
  \<comment> \<open>some prefix of the text matches\<close>
  "match_here Zero cs = False"
| "match_here r [] = nullable r"
| "match_here r (c # cs) = (if nullable r then True else match_here (deriv c r) cs)"

fun re_search :: "rexp \<Rightarrow> codepoints \<Rightarrow> bool" where
  \<comment> \<open>\<^verbatim>\<open>re.search(pattern, line, re.IGNORECASE)\<close> is not None: a match starts somewhere\<close>
  "re_search r [] = nullable r"
| "re_search r (c # cs) = (if match_here r (c # cs) then True else re_search r cs)"

subsection \<open>Atoms under \<^verbatim>\<open>re.IGNORECASE\<close>\<close>

definition fold_case :: "nat \<Rightarrow> nat" where
  \<comment> \<open>the lower-case ASCII letter a code point is matched as, if there is one: the
      upper-case letter, and U+0130, U+0131 for i, U+017F for s, U+212A for k\<close>
  "fold_case c =
     (if 65 \<le> c \<and> c \<le> 90 then c + 32
      else if c = 0x130 \<or> c = 0x131 then 105
      else if c = 0x17F then 115
      else if c = 0x212A then 107
      else c)"

definition lit :: "char \<Rightarrow> nat \<Rightarrow> bool" where
  \<comment> \<open>an ASCII character of the pattern\<close>
  "lit p c = (fold_case c = fold_case (of_char p))"

definition dot :: "nat \<Rightarrow> bool" where
  \<comment> \<open>\<^verbatim>\<open>.\<close>: anything but a newline\<close>
  "dot c = (c \<noteq> 10)"

definition none_of :: "nat list \<Rightarrow> nat \<Rightarrow> bool" where
  \<comment> \<open>\<^verbatim>\<open>[^...]\<close> of characters that are not letters\<close>
  "none_of xs c = (c \<notin> set xs)"

definition one_of :: "nat list \<Rightarrow> nat \<Rightarrow> bool" where
  \<comment> \<open>\<^verbatim>\<open>[...]\<close> of characters that are not letters\<close>
  "one_of xs c = (c \<in> set xs)"

definition letter :: "nat \<Rightarrow> bool" where
  \<comment> \<open>\<^verbatim>\<open>[a-z]\<close>\<close>
  "letter c = (97 \<le> fold_case c \<and> fold_case c \<le> 122)"

definition letter_or_digit :: "nat \<Rightarrow> bool" where
  \<comment> \<open>\<^verbatim>\<open>[A-Z0-9]\<close>\<close>
  "letter_or_digit c = (letter c \<or> (48 \<le> c \<and> c \<le> 57))"

subsection \<open>Pattern syntax\<close>

definition str :: "string \<Rightarrow> rexp" where
  \<comment> \<open>a run of literal characters\<close>
  "str s = foldr (\<lambda>p r. Seq (Atom (lit p)) r) s One"

definition cat :: "rexp list \<Rightarrow> rexp" where
  "cat rs = foldr Seq rs One"

definition ws :: rexp where
  \<comment> \<open>\<^verbatim>\<open>\s*\<close>\<close>
  "ws = Star (Atom is_space)"

definition anything :: rexp where
  \<comment> \<open>\<^verbatim>\<open>.*\<close>\<close>
  "anything = Star (Atom dot)"

definition plus :: "rexp \<Rightarrow> rexp" where
  \<comment> \<open>\<^verbatim>\<open>r+\<close>\<close>
  "plus r = Seq r (Star r)"

definition opt :: "rexp \<Rightarrow> rexp" where
  \<comment> \<open>\<^verbatim>\<open>r?\<close>\<close>
  "opt r = Alt r One"

primrec at_least :: "nat \<Rightarrow> rexp \<Rightarrow> rexp" where
  \<comment> \<open>\<^verbatim>\<open>r{n,}\<close>\<close>
  "at_least 0 r = Star r"
| "at_least (Suc n) r = Seq r (at_least n r)"

definition quote :: rexp where
  \<comment> \<open>\<^verbatim>\<open>["\']\<close>\<close>
  "quote = Atom (one_of [34, 39])"

definition unquoted :: "nat \<Rightarrow> bool" where
  \<comment> \<open>\<^verbatim>\<open>[^"\']\<close>\<close>
  "unquoted = none_of [34, 39]"

definition no_paren :: rexp where
  \<comment> \<open>\<^verbatim>\<open>[^)]*\<close>\<close>
  "no_paren = Star (Atom (none_of [41]))"

definition no_semicolon :: rexp where
  \<comment> \<open>\<^verbatim>\<open>[^;]*\<close>\<close>
  "no_semicolon = Star (Atom (none_of [59]))"

section \<open>security\_auditor.py\<close>

record Vulnerability =
  severity :: string
  category :: string
  description :: string
  file_path :: string
  line_number :: nat
  code_snippet :: codepoints
  remediation :: string
  cwe_id :: string
  cvss_score :: rat

definition file_extensions :: "string list" where
  "file_extensions =
     [''.js'', ''.jsx'', ''.ts'', ''.tsx'', ''.py'', ''.java'', ''.cs'', ''.php'',
      ''.rb'', ''.go'', ''.rs'', ''.cpp'', ''.c'', ''.h'', ''.sql'', ''.json'', ''.yaml'', ''.yml'']"

definition call_with_plus :: "string \<Rightarrow> rexp" where
  \<comment> \<open>\<^verbatim>\<open>name\s*\([^)]*\+\<close>\<close>
  "call_with_plus name = cat [str name, ws, str ''('', no_paren, str ''+'']"

definition call_with_dollar :: "string \<Rightarrow> rexp" where
  \<comment> \<open>\<^verbatim>\<open>name\s*\([^)]*\$\<close>\<close>
  "call_with_dollar name = cat [str name, ws, str ''('', no_paren, str ''$'']"

definition quoted_then_plus :: "string \<Rightarrow> rexp" where
  \<comment> \<open>\<^verbatim>\<open>name\s*\(\s*["\'][^"\']*\+\<close>\<close>
  "quoted_then_plus name =
     cat [str name, ws, str ''('', ws, quote, Star (Atom unquoted), str ''+'']"

definition assigned_literal :: "rexp \<Rightarrow> nat \<Rightarrow> rexp" where
  \<comment> \<open>\<^verbatim>\<open>name\s*=\s*["\'][^"\']{n,}["\']\<close>\<close>
  "assigned_literal name n =
     cat [name, ws, str ''='', ws, quote, at_least n (Atom unquoted), quote]"

definition patterns :: "(string \<times> (rexp \<times> string) list) list" where
  "patterns =
   [(''xss'',
     [(cat [str ''innerHTML'', ws, str ''='', ws, no_semicolon, str ''+''],
         ''Potential XSS via innerHTML concatenation''),
      (call_with_plus ''document.write'', ''Potential XSS via document.write concatenation''),
      (call_with_plus ''eval'', ''Potential XSS via eval with user input''),
      (cat [str ''dangerouslySetInnerHTML'', anything, Atom (none_of [125]), str ''}}''],
         ''React dangerouslySetInnerHTML usage''),
      (cat [str ''v-html'', ws, str ''='', ws, quote, Star (Atom unquoted), str ''+''],
         ''Vue.js v-html with concatenation'')]),
    (''sql_injection'',
     [(cat [str ''SELECT'', anything, str ''+'', anything, str ''FROM''],
         ''SQL query with string concatenation''),
      (cat [str ''INSERT'', anything, str ''+'', anything, str ''VALUES''],
         ''SQL INSERT with string concatenation''),
      (cat [str ''UPDATE'', anything, str ''SET'', anything, str ''+''],
         ''SQL UPDATE with string concatenation''),
      (cat [str ''DELETE'', anything, str ''WHERE'', anything, str ''+''],
         ''SQL DELETE with string concatenation''),
      (quoted_then_plus ''query'', ''Database query with concatenation''),
      (quoted_then_plus ''execute'', ''SQL execute with concatenation'')]),
    (''command_injection'',
     [(call_with_plus ''exec'', ''Command execution with concatenation''),
      (call_with_plus ''system'', ''System command with concatenation''),
      (call_with_plus ''shell_exec'', ''Shell execution with concatenation''),
      (call_with_plus ''subprocess.call'', ''Subprocess call with concatenation''),
      (call_with_plus ''os.system'', ''OS system call with concatenation'')]),
    (''path_traversal'',
     [(str ''../'', ''Potential path traversal sequence''),
      (cat [str ''..'', Atom (one_of [92]), Atom (one_of [92])],
         ''Potential Windows path traversal''),
      (call_with_dollar ''file_get_contents'', ''File access with variable path''),
      (call_with_plus ''readFile'', ''File read with concatenated path''),
      (cat [str ''open'', ws, str ''('', no_paren, str ''+'', anything, quote, str ''r''],
         ''File open with concatenated path'')]),
    (''ssrf'',
     [(cat [str ''fetch'', ws, str ''('', ws, no_paren, str ''$''],
         ''HTTP request with variable URL''),
      (cat [str ''axios.'', plus (Atom letter), ws, str ''('', no_paren, str ''$''],
         ''Axios request with variable URL''),
      (call_with_dollar ''http.get'', ''HTTP GET with variable URL''),
      (cat [str ''requests.'', plus (Atom letter), ws, str ''('', no_paren, str ''+''],
         ''Python requests with concatenated URL''),
      (cat [str ''curl'', plus (Atom is_space), no_semicolon, str ''$''],
         ''cURL with variable URL'')]),
    (''hardcoded_secrets'',
     [(assigned_literal (str ''password'') 8, ''Hardcoded password''),
      (assigned_literal (cat [str ''api'', opt (Atom (one_of [95, 45])), str ''key'']) 16,
         ''Hardcoded API key''),
      (assigned_literal (str ''secret'') 16, ''Hardcoded secret''),
      (assigned_literal (str ''token'') 20, ''Hardcoded token''),
      (at_least 32 (Atom letter_or_digit), ''Potential hardcoded hash/key'')]),
    (''weak_crypto'',
     [(cat [str ''md5'', ws, str ''(''], ''Weak MD5 hashing''),
      (cat [str ''sha1'', ws, str ''(''], ''Weak SHA1 hashing''),
      (Alt (str ''DES'') (str ''RC4''), ''Weak encryption algorithm''),
      (cat [str ''Math.random'', ws, str ''(''], ''Weak random number generation''),
      (cat [str ''random'', ws, str ''('', ws, str '')''], ''Weak random function usage'')]),
    (''insecure_deserialization'',
     [(cat [str ''pickle.loads'', ws, str ''(''], ''Unsafe pickle deserialization''),
      (cat [str ''JSON.parse'', ws, str ''('', no_paren, str ''req.body''],
         ''JSON parsing user input''),
      (cat [str ''unserialize'', ws, str ''('', ws, str ''$_''], ''PHP unserialize user input''),
      (cat [str ''yaml.load'', ws, str ''('', no_paren, str '')''],
         ''YAML load without safe loader'')]),
    (''information_disclosure'',
     [(cat [str ''console.log'', ws, str ''('', no_paren, str ''password''],
         ''Password logged to console''),
      (cat [str ''print'', ws, str ''('', no_paren, str ''password''],
         ''Password in print statement''),
      (cat [str ''printStackTrace'', ws, str ''('', ws, str '')''], ''Stack trace exposure''),
      (cat [str ''error_reporting'', ws, str ''('', ws, str ''E_ALL''],
         ''Full error reporting enabled'')])]"

definition get_severity :: "string \<Rightarrow> string" where
  "get_severity c =
     dict_get [(''sql_injection'', ''critical''), (''command_injection'', ''critical''),
               (''xss'', ''critical''), (''ssrf'', ''high''), (''path_traversal'', ''high''),
               (''hardcoded_secrets'', ''high''), (''insecure_deserialization'', ''high''),
               (''weak_crypto'', ''medium''), (''information_disclosure'', ''medium'')]
       c ''low''"

definition get_remediation :: "string \<Rightarrow> string" where
  "get_remediation c =
     dict_get
       [(''xss'', ''Use proper input validation and output encoding. Implement CSP headers.''),
        (''sql_injection'', ''Use parameterized queries or prepared statements.''),
        (''command_injection'', ''Validate and sanitize all user inputs. Use safe APIs.''),
        (''path_traversal'', ''Validate file paths and use allowlists for permitted directories.''),
        (''ssrf'', ''Validate and restrict URLs. Use allowlists for permitted domains.''),
        (''hardcoded_secrets'', ''Use environment variables or secure key management systems.''),
        (''weak_crypto'', ''Use strong cryptographic algorithms (AES-256, SHA-256+).''),
        (''insecure_deserialization'', ''Validate data before deserialization or use safe formats.''),
        (''information_disclosure'', ''Remove sensitive information from logs and error messages.'')]
       c ''Review and secure the identified code.''"

definition get_cwe_id :: "string \<Rightarrow> string" where
  "get_cwe_id c =
     dict_get [(''xss'', ''CWE-79''), (''sql_injection'', ''CWE-89''),
               (''command_injection'', ''CWE-78''), (''path_traversal'', ''CWE-22''),
               (''ssrf'', ''CWE-918''), (''hardcoded_secrets'', ''CWE-798''),
               (''weak_crypto'', ''CWE-327''), (''insecure_deserialization'', ''CWE-502''),
               (''information_disclosure'', ''CWE-200'')]
       c ''CWE-Unknown''"

definition get_cvss_score :: "string \<Rightarrow> rat" where
  "get_cvss_score s =
     dict_get [(''critical'', 9), (''high'', 15/2), (''medium'', 5), (''low'', 5/2)] s 0"

definition severity_weights :: "(string \<times> int) list" where
  "severity_weights = [(''critical'', 10), (''high'', 7), (''medium'', 4), (''low'', 1)]"

definition calculate_risk_score :: "Vulnerability list \<Rightarrow> rat" where
  "calculate_risk_score vulnerabilities =
     (if vulnerabilities = [] then 0
      else let total_score = (\<Sum>v\<leftarrow>vulnerabilities. dict_get severity_weights (severity v) 0);
               max_possible = int (length vulnerabilities) * 10
           in if 0 < max_possible
              then round1 (fmul (int_truediv total_score max_possible) 10)
              else 0)"

definition scan_lines :: "string \<Rightarrow> codepoints list \<Rightarrow> Vulnerability list" where
  \<comment> \<open>the three loops of \<^verbatim>\<open>scan_file\<close>: categories, their patterns, the lines from 1;
      \<open>rel\<close> is \<^verbatim>\<open>str(file_path.relative_to(self.target_path))\<close>\<close>
  "scan_lines rel lines =
     concat (map (\<lambda>(cat_name, pats).
       concat (map (\<lambda>(pattern, descr).
         concat (map (\<lambda>(line_num, line).
           if re_search pattern line
           then [\<lparr>severity = get_severity cat_name,
                  category = cat_name,
                  description = descr,
                  file_path = rel,
                  line_number = line_num,
                  code_snippet = strip line,
                  remediation = get_remediation cat_name,
                  cwe_id = get_cwe_id cat_name,
                  cvss_score = get_cvss_score (get_severity cat_name)\<rparr>]
           else [])
           (zip [1 ..< Suc (length lines)] lines)))
         pats))
       patterns)"

subsection \<open>Reading a file\<close>

text \<open>
  \<^verbatim>\<open>open(file_path, 'r', encoding='utf-8', errors='ignore')\<close> and \<^verbatim>\<open>f.read()\<close>:
  the bytes of the file are decoded as UTF-8, every byte sequence that is not
  well-formed is left out, and each \<^verbatim>\<open>\r\n\<close> and \<^verbatim>\<open>\r\<close> becomes \<^verbatim>\<open>\n\<close>. A byte is a
  natural number below 256. An ill-formed sequence is as long as CPython's decoder
  reports it: the lead byte alone when the byte after it cannot follow it, otherwise
  the bytes that could start a character, up to the first that cannot continue it or
  to the end of the data.
\<close>

definition continuation :: "nat \<Rightarrow> bool" where
  "continuation b = (0x80 \<le> b \<and> b < 0xC0)"

definition utf8_first :: "nat \<Rightarrow> nat list \<Rightarrow> codepoints \<times> nat" where
  \<comment> \<open>the sequence that starts with the byte \<open>b\<close>, followed by \<open>bs\<close>: the code point
      it encodes, or none for an ill-formed sequence, and how many bytes of \<open>bs\<close> belong
      to it\<close>
  "utf8_first b bs =
     (if b < 0x80 then ([b], 0)
      else if b < 0xC2 then ([], 0)
      else if b < 0xE0 then
        (case bs of
           [] \<Rightarrow> ([], 0)
         | b2 # r2 \<Rightarrow>
             if continuation b2 then ([(b - 0xC0) * 64 + (b2 - 0x80)], 1) else ([], 0))
      else if b < 0xF0 then
        (case bs of
           [] \<Rightarrow> ([], 0)
         | b2 # r2 \<Rightarrow>
             if \<not> continuation b2 \<or> (b = 0xE0 \<and> b2 < 0xA0) \<or> (b = 0xED \<and> 0xA0 \<le> b2)
             then ([], 0)
             else (case r2 of
                     [] \<Rightarrow> ([], 1)
                   | b3 # r3 \<Rightarrow>
                       if continuation b3
                       then ([(b - 0xE0) * 4096 + (b2 - 0x80) * 64 + (b3 - 0x80)], 2)
                       else ([], 1)))
      else if b < 0xF5 then
        (case bs of
           [] \<Rightarrow> ([], 0)
         | b2 # r2 \<Rightarrow>
             if \<not> continuation b2 \<or> (b = 0xF0 \<and> b2 < 0x90) \<or> (b = 0xF4 \<and> 0x90 \<le> b2)
             then ([], 0)
             else (case r2 of
                     [] \<Rightarrow> ([], 1)
                   | b3 # r3 \<Rightarrow>
                       if \<not> continuation b3 then ([], 1)
                       else (case r3 of
                               [] \<Rightarrow> ([], 2)
                             | b4 # r4 \<Rightarrow>
                                 if continuation b4
                                 then ([(b - 0xF0) * 262144 + (b2 - 0x80) * 4096
                                          + (b3 - 0x80) * 64 + (b4 - 0x80)], 3)
                                 else ([], 2))))
      else ([], 0))"

function utf8_decode_ignore :: "nat list \<Rightarrow> codepoints" where
  "utf8_decode_ignore [] = []"
| "utf8_decode_ignore (b # bs) =
     (case utf8_first b bs of (out, k) \<Rightarrow> out @ utf8_decode_ignore (drop k bs))"
  by pat_completeness auto
termination
  by (relation "measure length") auto

fun universal_newlines :: "codepoints \<Rightarrow> codepoints" where
  "universal_newlines [] = []"
| "universal_newlines (c # cs) =
     (if c = 13
      then (case cs of
              [] \<Rightarrow> [10]
            | d # ds \<Rightarrow> if d = 10 then 10 # universal_newlines ds
                       else 10 # universal_newlines cs)
      else c # universal_newlines cs)"

definition read_text :: "nat list \<Rightarrow> codepoints" where
  "read_text bytes = universal_newlines (utf8_decode_ignore bytes)"

subsection \<open>The directory walk\<close>

text \<open>
  What \<^verbatim>\<open>self.target_path.rglob('*')\<close> yields is given: the entries below the scan
  root in the order of the walk, each with its path relative to the root, whether
  \<^verbatim>\<open>is_file()\<close> holds of it, and what reading it meets: an exception, or the bytes of
  the file. The scan root is \<^verbatim>\<open>str(self.target_path)\<close>, a POSIX path.
\<close>

datatype io_error = IOError string

record entry =
  rel_path :: string
  is_file :: bool
  content :: "io_error + nat list"

definition full_path :: "string \<Rightarrow> string \<Rightarrow> string" where
  \<comment> \<open>\<^verbatim>\<open>str(self.target_path / rel)\<close>\<close>
  "full_path target rel =
     (if target = [] \<or> target = ''.'' then rel
      else if last target = CHR ''/'' then target @ rel
      else target @ ''/'' @ rel)"

definition path_name :: "string \<Rightarrow> string" where
  \<comment> \<open>\<^verbatim>\<open>file_path.name\<close>: the last component\<close>
  "path_name p = rev (takeWhile (\<lambda>c. c \<noteq> CHR ''/'') (rev p))"

definition rfind_dot :: "string \<Rightarrow> nat option" where
  \<comment> \<open>\<^verbatim>\<open>name.rfind('.')\<close>, \<open>None\<close> for -1\<close>
  "rfind_dot name =
     (if CHR ''.'' \<in> set name
      then Some (length name - Suc (length (takeWhile (\<lambda>c. c \<noteq> CHR ''.'') (rev name))))
      else None)"

definition suffix :: "string \<Rightarrow> string" where
  \<comment> \<open>\<^verbatim>\<open>file_path.suffix\<close>\<close>
  "suffix p =
     (let name = path_name p
      in case rfind_dot name of
           None \<Rightarrow> []
         | Some i \<Rightarrow> if 0 < i \<and> Suc i < length name then drop i name else [])"

definition skip_patterns :: "string list" where
  "skip_patterns =
     [''node_modules'', ''.git'', ''__pycache__'', ''.venv'', ''venv'',
      ''build'', ''dist'', ''.next'', ''target'', ''bin'', ''obj'']"

definition should_skip_file :: "string \<Rightarrow> bool" where
  \<comment> \<open>the argument is \<^verbatim>\<open>str(file_path)\<close>\<close>
  "should_skip_file p = list_ex (\<lambda>pattern. str_in pattern p) skip_patterns"

definition scan_file :: "entry \<Rightarrow> Vulnerability list" where
  \<comment> \<open>an exception of \<^verbatim>\<open>open\<close> or \<^verbatim>\<open>read\<close> is caught with no finding appended yet\<close>
  "scan_file e =
     (case content e of
        Inl err \<Rightarrow> []
      | Inr bytes \<Rightarrow> scan_lines (rel_path e) (split_newline (read_text bytes)))"

subsection \<open>The auditor and its list of findings\<close>

text \<open>
  \<^verbatim>\<open>self.vulnerabilities\<close> is a list object that \<^verbatim>\<open>scan_directory\<close> extends in place
  and hands to the \<^verbatim>\<open>AuditResult\<close> it returns: the auditor and its results hold the
  same object. The list objects live in a heap, and an attribute that holds a list is
  the address of one. The time stamps of a result are left out.
\<close>

record heap =
  lists :: "nat \<Rightarrow> Vulnerability list"
  limit :: nat

record SecurityAuditor =
  target_path :: string
  vulnerabilities :: nat

record AuditResult =
  total_files_scanned :: nat
  vulnerabilities :: nat
  risk_score :: rat

definition new_list :: "heap \<Rightarrow> nat \<times> heap" where
  \<comment> \<open>\<^verbatim>\<open>[]\<close>: a new, empty list object\<close>
  "new_list h = (limit h, h\<lparr>lists := (lists h)(limit h := []), limit := Suc (limit h)\<rparr>)"

definition list_extend :: "nat \<Rightarrow> Vulnerability list \<Rightarrow> heap \<Rightarrow> heap" where
  \<comment> \<open>\<^verbatim>\<open>l.extend(vs)\<close>\<close>
  "list_extend l vs h = h\<lparr>lists := (lists h)(l := lists h l @ vs)\<rparr>"

definition init :: "string \<Rightarrow> heap \<Rightarrow> SecurityAuditor \<times> heap" where
  \<comment> \<open>\<^verbatim>\<open>SecurityAuditor(target_path)\<close>\<close>
  "init target h =
     (let (l, h') = new_list h
      in (\<lparr>target_path = target, vulnerabilities = l\<rparr>, h'))"

definition eligible :: "string \<Rightarrow> entry \<Rightarrow> bool" where
  \<comment> \<open>the condition of the loop of \<^verbatim>\<open>scan_directory\<close>\<close>
  "eligible target e =
     (is_file e \<and>
      lower (suffix (full_path target (rel_path e))) \<in> set file_extensions \<and>
      \<not> should_skip_file (full_path target (rel_path e)))"

definition scan_step :: "SecurityAuditor \<Rightarrow> nat \<times> heap \<Rightarrow> entry \<Rightarrow> nat \<times> heap" where
  \<comment> \<open>the body of the loop of \<^verbatim>\<open>scan_directory\<close>\<close>
  "scan_step self st e =
     (case st of (files_scanned, h) \<Rightarrow>
        if eligible (target_path self) e
        then (Suc files_scanned, list_extend (SecurityAuditor.vulnerabilities self) (scan_file e) h)
        else (files_scanned, h))"

definition scan_directory :: "SecurityAuditor \<Rightarrow> entry list \<Rightarrow> heap \<Rightarrow> AuditResult \<times> heap" where
  "scan_directory self tree h =
     (case foldl (scan_step self) (0, h) tree of (files_scanned, h') \<Rightarrow>
        (\<lparr>total_files_scanned = files_scanned,
          vulnerabilities = SecurityAuditor.vulnerabilities self,
          risk_score = calculate_risk_score (lists h' (SecurityAuditor.vulnerabilities self))\<rparr>,
         h'))"

definition findings :: "AuditResult \<Rightarrow> heap \<Rightarrow> Vulnerability list" where
  \<comment> \<open>reading \<^verbatim>\<open>result.vulnerabilities\<close> in a state of the heap\<close>
  "findings res h = lists h (AuditResult.vulnerabilities res)"

section \<open>risk\_calculator.py\<close>

text \<open>
  The calculator reads findings as dicts, of which it looks up the keys
  \<^verbatim>\<open>severity\<close> and \<^verbatim>\<open>category\<close> only: a finding is a map from keys to strings.
\<close>

type_synonym vuln = "string \<rightharpoonup> string"

definition vuln_get :: "vuln \<Rightarrow> string \<Rightarrow> string \<Rightarrow> string" where
  \<comment> \<open>\<^verbatim>\<open>vuln.get(key, default)\<close>\<close>
  "vuln_get v k x = (case v k of None \<Rightarrow> x | Some s \<Rightarrow> s)"

record audit_data =
  ad_vulnerabilities :: "vuln list option"
  ad_risk_score :: "rat option"

record RiskMetrics =
  vulnerability_count :: nat
  severity_distribution :: "(string \<times> int) list"
  risk_score :: rat
  business_impact_score :: rat
  remediation_cost :: "(string \<times> int) list"
  timeline_months :: rat

definition remediation_costs :: "(string \<times> int) list" where
  "remediation_costs =
     [(''critical'', 15000), (''high'', 8000), (''medium'', 3000), (''low'', 1000)]"

definition industry_factors :: "(string \<times> rat) list" where
  "industry_factors =
     [(''fintech'', fl (18/10)), (''healthcare'', fl (17/10)), (''ecommerce'', fl (14/10)),
      (''enterprise'', fl (12/10)), (''consumer'', 1)]"

definition calculate_remediation_cost :: "(string \<times> int) list \<Rightarrow> (string \<times> int) list" where
  "calculate_remediation_cost severity_dist =
     (let (costs, total_cost) =
            foldl (\<lambda>(costs, total_cost) (severity, count).
                     let base_cost = dict_get remediation_costs severity 1000;
                         severity_cost = base_cost * count
                     in (AList.update severity severity_cost costs, total_cost + severity_cost))
                  ([], 0) severity_dist
      in AList.update ''total'' total_cost costs)"

definition high_impact_categories :: "(string \<times> rat) list" where
  "high_impact_categories =
     [(''sql_injection'', 9), (''command_injection'', 9), (''xss'', 7), (''ssrf'', 6),
      (''hardcoded_secrets'', 8), (''insecure_deserialization'', 15/2),
      (''path_traversal'', 13/2)]"

definition severity_multiplier :: "(string \<times> rat) list" where
  "severity_multiplier =
     [(''critical'', 1), (''high'', fl (8/10)), (''medium'', fl (6/10)), (''low'', fl (3/10))]"

definition impact_score :: "vuln \<Rightarrow> rat" where
  \<comment> \<open>the body of the loop over \<^verbatim>\<open>vulnerability_data\<close>\<close>
  "impact_score v =
     (let category = vuln_get v ''category'' '''';
          severity = vuln_get v ''severity'' ''low'';
          base_impact = dict_get high_impact_categories category 3
      in fmul base_impact (dict_get severity_multiplier severity (fl (3/10))))"

definition sort_reverse :: "rat list \<Rightarrow> rat list" where
  \<comment> \<open>\<^verbatim>\<open>xs.sort(reverse=True)\<close>\<close>
  "sort_reverse xs = rev (sort xs)"

definition calculate_business_impact_score :: "vuln list \<Rightarrow> rat" where
  "calculate_business_impact_score vulnerability_data =
     (if vulnerability_data = [] then 0
      else let impact_scores = map impact_score vulnerability_data
           in if impact_scores = [] then 0
              else let top_impacts = take 5 (sort_reverse impact_scores)
                   in round1 (fdiv (fsum top_impacts) (of_nat (length top_impacts))))"

definition timeline_days :: "(string \<times> int) list" where
  "timeline_days = [(''critical'', 30), (''high'', 14), (''medium'', 7), (''low'', 2)]"

definition estimate_timeline :: "(string \<times> int) list \<Rightarrow> rat" where
  "estimate_timeline severity_dist =
     (let total_days = foldl (\<lambda>total_days (severity, count).
                                total_days + dict_get timeline_days severity 7 * count) 0 severity_dist;
          parallelized_days = int_truediv total_days 2;
          buffered_days = fmul parallelized_days (fl (12/10))
      in round1 (fdiv buffered_days 30))"

record financial_exposure =
  minimum :: int
  expected :: int
  maximum :: int

definition calculate_financial_exposure :: "rat \<Rightarrow> rat \<Rightarrow> financial_exposure" where
  "calculate_financial_exposure risk business_impact =
     (let base_exposure = fmul (fmul risk business_impact) 10000;
          minimum_exposure = fmul base_exposure (1/2);
          maximum_exposure = fmul base_exposure (7/2);
          expected_exposure = fmul base_exposure (fl (12/10))
      in \<lparr>minimum = round0 minimum_exposure, expected = round0 expected_exposure,
          maximum = round0 maximum_exposure\<rparr>)"

definition count_severity :: "(string \<times> int) list \<Rightarrow> vuln \<Rightarrow> (string \<times> int) list" where
  \<comment> \<open>the body of the loop that builds \<^verbatim>\<open>severity_distribution\<close>\<close>
  "count_severity severity_dist v =
     (let severity = vuln_get v ''severity'' ''low''
      in AList.update severity (dict_get severity_dist severity 0 + 1) severity_dist)"

definition generate_risk_assessment :: "audit_data \<Rightarrow> string \<Rightarrow> RiskMetrics" where
  "generate_risk_assessment ad industry =
     (let vulns = (case ad_vulnerabilities ad of None \<Rightarrow> [] | Some vs \<Rightarrow> vs);
          severity_dist = foldl count_severity [] vulns;
          base_risk_score = (case ad_risk_score ad of None \<Rightarrow> 0 | Some r \<Rightarrow> r);
          business_impact = calculate_business_impact_score vulns;
          remediation_costs = calculate_remediation_cost severity_dist;
          timeline = estimate_timeline severity_dist;
          industry_factor = dict_get industry_factors (lower industry) 1;
          adjusted_risk_score = min 10 (fmul base_risk_score industry_factor)
      in \<lparr>vulnerability_count = length vulns,
          severity_distribution = severity_dist,
          risk_score = adjusted_risk_score,
          business_impact_score = business_impact,
          remediation_cost = remediation_costs,
          timeline_months = timeline\<rparr>)"

record executive_summary =
  risk_level :: string
  recommendation :: string
  critical_vulnerabilities :: int
  high_vulnerabilities :: int
  total_vulnerabilities :: nat
  potential_financial_exposure :: financial_exposure

definition generate_executive_summary :: "RiskMetrics \<Rightarrow> executive_summary" where
  "generate_executive_summary risk_metrics =
     (let (level, recommended) =
            (if 8 \<le> risk_score risk_metrics
             then (''CRITICAL'', ''HIGH RISK - Recommend against acquisition without major security remediation commitment'')
             else if 6 \<le> risk_score risk_metrics
             then (''HIGH'', ''PROCEED WITH CAUTION - Significant security investment required'')
             else if 4 \<le> risk_score risk_metrics
             then (''MEDIUM'', ''ACCEPTABLE WITH CONDITIONS - Security improvements needed'')
             else (''LOW'', ''LOW RISK - Minor security enhancements recommended''))
      in \<lparr>risk_level = level,
          recommendation = recommended,
          critical_vulnerabilities = dict_get (severity_distribution risk_metrics) ''critical'' 0,
          high_vulnerabilities = dict_get (severity_distribution risk_metrics) ''high'' 0,
          total_vulnerabilities = vulnerability_count risk_metrics,
          potential_financial_exposure =
            calculate_financial_exposure (risk_score risk_metrics)
              (business_impact_score risk_metrics)\<rparr>)"

section \<open>Readings of the tables\<close>

text \<open>
  Three lookups of the calculator, named: the severity it reads from a finding, and the
  days and the cost it reads from its tables for a severity.
\<close>

definition sev_of :: "vuln \<Rightarrow> string" where
  "sev_of v = vuln_get v ''severity'' ''low''"

definition days_of :: "string \<Rightarrow> int" where
  "days_of s = dict_get timeline_days s 7"

definition cost_of :: "string \<Rightarrow> int" where
  "cost_of s = dict_get remediation_costs s 1000"

text \<open>
  The entries a walk scans, and the findings it appends to the list of the auditor.
\<close>

definition scanned :: "string \<Rightarrow> entry list \<Rightarrow> entry list" where
  "scanned target tree = filter (eligible target) tree"

definition found :: "string \<Rightarrow> entry list \<Rightarrow> Vulnerability list" where
  "found target tree = concat (map scan_file (scanned target tree))"

section \<open>The specification's formulas\<close>

text \<open>
  The definitions of this section follow the wording of the specification, not the
  code; the theorems compare the two.
\<close>

definition known_severity :: "string \<Rightarrow> bool" where
  \<comment> \<open>the severities of a finding: critical, high, medium, low\<close>
  "known_severity s = (s \<in> {''critical'', ''high'', ''medium'', ''low''})"

definition spec_weight :: "string \<Rightarrow> int" where
  \<comment> \<open>severity weights: critical=10, high=7, medium=4, low=1\<close>
  "spec_weight s =
     (if s = ''critical'' then 10 else if s = ''high'' then 7
      else if s = ''medium'' then 4 else if s = ''low'' then 1 else undefined)"

definition spec_risk_score :: "Vulnerability list \<Rightarrow> rat" where
  \<comment> \<open>round(sum(weight) / (count * 10) * 10, 1); 0.0 when no findings\<close>
  "spec_risk_score vs =
     (if vs = [] then 0
      else round1 (fmul (int_truediv (\<Sum>v\<leftarrow>vs. spec_weight (severity v))
                                     (int (length vs) * 10)) 10))"

definition caseless_eq :: "string \<Rightarrow> string \<Rightarrow> bool" where
  \<comment> \<open>equal up to the case of the letters\<close>
  "caseless_eq a b = (lower a = lower b)"

definition spec_industry_multiplier :: "string \<Rightarrow> rat" where
  \<comment> \<open>fintech 1.8, healthcare 1.7, ecommerce 1.4, enterprise 1.2, consumer 1.0,
      case-insensitive; unknown values default to 1.0\<close>
  "spec_industry_multiplier industry =
     (if caseless_eq industry ''fintech'' then fl (18/10)
      else if caseless_eq industry ''healthcare'' then fl (17/10)
      else if caseless_eq industry ''ecommerce'' then fl (14/10)
      else if caseless_eq industry ''enterprise'' then fl (12/10)
      else if caseless_eq industry ''consumer'' then 1
      else 1)"

definition spec_base_impact :: "string \<Rightarrow> rat" where
  \<comment> \<open>base impact by category, default 3.0\<close>
  "spec_base_impact c =
     (if c = ''sql_injection'' then 9 else if c = ''command_injection'' then 9
      else if c = ''hardcoded_secrets'' then 8
      else if c = ''insecure_deserialization'' then 15/2
      else if c = ''xss'' then 7 else if c = ''path_traversal'' then 13/2
      else if c = ''ssrf'' then 6 else 3)"

definition spec_severity_multiplier :: "string \<Rightarrow> rat" where
  \<comment> \<open>critical 1.0, high 0.8, medium 0.6, low 0.3, default 0.3\<close>
  "spec_severity_multiplier s =
     (if s = ''critical'' then 1 else if s = ''high'' then fl (8/10)
      else if s = ''medium'' then fl (6/10) else if s = ''low'' then fl (3/10)
      else fl (3/10))"

definition spec_impact :: "vuln \<Rightarrow> rat" where
  "spec_impact v =
     fmul (spec_base_impact (vuln_get v ''category'' ''''))
          (spec_severity_multiplier (vuln_get v ''severity'' ''low''))"

definition spec_business_impact_score :: "vuln list \<Rightarrow> rat" where
  \<comment> \<open>the impacts sorted descending, the top min(5, count) averaged, one decimal;
      0.0 for no findings\<close>
  "spec_business_impact_score vs =
     (if vs = [] then 0
      else let k = min 5 (length vs);
               top = take k (rev (sort (map spec_impact vs)))
           in round1 (fdiv (fsum top) (of_nat k)))"






section \<open>Sample inputs\<close>

definition finding_of :: "string \<Rightarrow> Vulnerability" where
  "finding_of s = \<lparr>severity = s, category = ''xss'', description = '''', file_path = ''a.js'',
     line_number = 1, code_snippet = [], remediation = '''', cwe_id = ''CWE-79'', cvss_score = 9\<rparr>"

definition vuln_of :: "string \<Rightarrow> string \<Rightarrow> vuln" where
  "vuln_of s c = [''severity'' \<mapsto> s, ''category'' \<mapsto> c]"

definition scenario_A_bytes :: "nat list" where
  \<open>scenario_A_bytes = map of_char ''query("SELECT * FROM users WHERE id=" + userId)''\<close>

definition scenario_A_file :: entry where
  "scenario_A_file = \<lparr>rel_path = ''app.js'', is_file = True, content = Inr scenario_A_bytes\<rparr>"

definition plus_in_literal_bytes :: "nat list" where
  \<open>plus_in_literal_bytes = map of_char ''query("a+b")''\<close>

definition plus_in_literal_file :: entry where
  "plus_in_literal_file =
     \<lparr>rel_path = ''app.js'', is_file = True, content = Inr plus_in_literal_bytes\<rparr>"


definition empty_heap :: heap where
  "empty_heap = \<lparr>lists = (\<lambda>l. []), limit = 0\<rparr>"

definition first_scan :: "AuditResult \<times> heap" where
  \<comment> \<open>\<^verbatim>\<open>auditor = SecurityAuditor('proj'); r1 = auditor.scan_directory()\<close>\<close>
  "first_scan =
     scan_directory (fst (init ''proj'' empty_heap)) [plus_in_literal_file]
       (snd (init ''proj'' empty_heap))"

definition second_scan :: "AuditResult \<times> heap" where
  \<comment> \<open>\<^verbatim>\<open>r2 = auditor.scan_directory()\<close>, after the first\<close>
  "second_scan =
     scan_directory (fst (init ''proj'' empty_heap)) [plus_in_literal_file] (snd first_scan)"

section \<open>Rounding is monotone\<close>

text \<open>
  The bounds below need one fact about float arithmetic: rounding to the nearest
  float never reverses the order of two values. Within one binade it is the
  monotonicity of rounding to an integer; across binades the power of two between the
  two values separates their roundings.
\<close>

lemma rhe_of_int: "rhe (of_int n) = n"
  by (simp add: rhe_def)

lemma rhe_mono: "x \<le> y \<Longrightarrow> rhe x \<le> rhe y"
proof -
  assume xy: "x \<le> y"
  have fm: "\<lfloor>x\<rfloor> \<le> \<lfloor>y\<rfloor>" using xy by (rule floor_mono)
  show ?thesis
  proof (cases "\<lfloor>x\<rfloor> = \<lfloor>y\<rfloor>")
    case True
    then show ?thesis using xy by (auto simp: rhe_def Let_def)
  next
    case False
    then have "\<lfloor>x\<rfloor> + 1 \<le> \<lfloor>y\<rfloor>" using fm by simp
    moreover have "rhe x \<le> \<lfloor>x\<rfloor> + 1" by (simp add: rhe_def Let_def)
    moreover have "\<lfloor>y\<rfloor> \<le> rhe y" by (simp add: rhe_def Let_def)
    ultimately show ?thesis by linarith
  qed
qed


lemma rhe_ge: "of_int n \<le> x \<Longrightarrow> n \<le> rhe x"
  using rhe_mono [of "of_int n" x] by (simp add: rhe_of_int)

lemma rhe_le: "x \<le> of_int n \<Longrightarrow> rhe x \<le> n"
  using rhe_mono [of x "of_int n"] by (simp add: rhe_of_int)

lemma ilog2_ge1:
  assumes "1 \<le> q"
  shows "2 powi (ilog2 q) \<le> q" and "q < 2 powi (ilog2 q + 1)"
proof -
  define n where "n = nat \<lfloor>q\<rfloor>"
  define k where "k = floorlog 2 n"
  have n0: "0 < n" using assms by (simp add: n_def)
  have qn: "of_nat n \<le> q" "q < of_nat n + 1"
    using assms floor_correct [of q] by (simp_all add: n_def)
  have b: "2 ^ (k - 1) \<le> n" "n < 2 ^ k"
    using floorlog_bounds [of n 2] n0 by (simp_all add: k_def)
  have "k \<noteq> 0" using n0 by (simp add: k_def floorlog_eq_zero_iff)
  then have k0: "0 < k" by simp
  have il: "ilog2 q = int (k - 1)"
    using assms k0 by (simp add: ilog2_def k_def n_def)
  have "(2::rat) ^ (k - 1) \<le> of_nat n"
    using b(1) by (metis of_nat_le_iff of_nat_numeral of_nat_power)
  then have "(2::rat) ^ (k - 1) \<le> q" using qn(1) by (rule order_trans)
  then show "2 powi (ilog2 q) \<le> q" by (simp add: il)
  have "n + 1 \<le> 2 ^ k" using b(2) by simp
  then have "(of_nat (n + 1) :: rat) \<le> 2 ^ k"
    by (metis of_nat_le_iff of_nat_numeral of_nat_power)
  moreover have "ilog2 q + 1 = int k" using il k0 by simp
  ultimately show "q < 2 powi (ilog2 q + 1)" using qn(2) by simp
qed

lemma ilog2_lt1:
  assumes "0 < q" "q < 1"
  shows "2 powi (ilog2 q) \<le> q" and "q < 2 powi (ilog2 q + 1)"
proof -
  define r where "r = 1 / q"
  define n where "n = nat (\<lceil>r\<rceil> - 1)"
  define k where "k = floorlog 2 n"
  have r1: "1 < r" using assms by (simp add: r_def)
  then have c2: "2 \<le> \<lceil>r\<rceil>" by (simp add: le_ceiling_iff)
  have n0: "0 < n" using c2 by (simp add: n_def)
  have rn: "of_nat n < r" "r \<le> of_nat n + 1"
  proof -
    have "of_nat n = (of_int (\<lceil>r\<rceil> - 1) :: rat)" using c2 by (simp add: n_def)
    then show "of_nat n < r" "r \<le> of_nat n + 1" by (simp_all add: ceiling_correct) 
  qed
  have b: "2 ^ (k - 1) \<le> n" "n < 2 ^ k"
    using floorlog_bounds [of n 2] n0 by (simp_all add: k_def)
  have "k \<noteq> 0" using n0 by (simp add: k_def floorlog_eq_zero_iff)
  then have k0: "0 < k" by simp
  have il: "ilog2 q = - int k"
    using assms by (simp add: ilog2_def k_def n_def r_def)
  have "n + 1 \<le> 2 ^ k" using b(2) by simp
  then have "(of_nat (n + 1) :: rat) \<le> 2 ^ k"
    by (metis of_nat_le_iff of_nat_numeral of_nat_power)
  then have "r \<le> 2 ^ k" using rn(2) by simp
  then have "1 / 2 ^ k \<le> q" using assms(1) by (simp add: r_def field_simps)
  then show "2 powi (ilog2 q) \<le> q" by (simp add: il power_int_minus_divide)
  have "(2::rat) ^ (k - 1) \<le> of_nat n"
    using b(1) by (metis of_nat_le_iff of_nat_numeral of_nat_power)
  then have "2 ^ (k - 1) < r" using rn(1) by (rule le_less_trans)
  then have "q < 1 / 2 ^ (k - 1)" using assms(1) by (simp add: r_def field_simps)
  moreover have "ilog2 q + 1 = - int (k - 1)" using il k0 by simp
  ultimately show "q < 2 powi (ilog2 q + 1)" by (simp add: power_int_minus_divide)
qed

lemma ilog2_bounds:
  assumes "0 < q"
  shows "2 powi (ilog2 q) \<le> q" and "q < 2 powi (ilog2 q + 1)"
  using assms ilog2_ge1 [of q] ilog2_lt1 [of q] by (cases "1 \<le> q"; simp)+


lemma ilog2_mono:
  assumes "0 < p" "p \<le> q"
  shows "ilog2 p \<le> ilog2 q"
proof (rule ccontr)
  assume "\<not> ilog2 p \<le> ilog2 q"
  then have "ilog2 q + 1 \<le> ilog2 p" by simp
  then have "(2::rat) powi (ilog2 q + 1) \<le> 2 powi (ilog2 p)"
    by (intro power_int_increasing) simp_all
  also have "\<dots> \<le> p" using assms(1) by (rule ilog2_bounds)
  also have "\<dots> \<le> q" by (rule assms(2))
  also have "\<dots> < 2 powi (ilog2 q + 1)" using assms by (intro ilog2_bounds) simp
  finally show False by simp
qed

lemma ulp_pos: "0 < ulp q"
  by (simp add: ulp_def)

lemma ulp_scale: "2 powi (fexp q + k) = 2 powi (k + 52) * ulp q"
proof -
  have "fexp q + k = (k + 52) + (fexp q - 52)" by simp
  then show ?thesis unfolding ulp_def by (metis power_int_add zero_neq_numeral)
qed

lemma fl_upper:
  assumes "0 < p"
  shows "fl p \<le> 2 powi (fexp p + 1)"
proof -
  have "p < 2 powi (ilog2 p + 1)" using assms by (rule ilog2_bounds)
  also have "\<dots> \<le> 2 powi (fexp p + 1)"
    using assms by (intro power_int_increasing) (simp_all add: fexp_def)
  also have "\<dots> = 2 powi 53 * ulp p" using ulp_scale [of p 1] by simp
  finally have "p / ulp p \<le> of_int (2 ^ 53)"
    using ulp_pos [of p] by (simp add: field_simps)
  then have "rhe (p / ulp p) \<le> 2 ^ 53" by (rule rhe_le)
  then have "(of_int (rhe (p / ulp p)) :: rat) \<le> of_int (2 ^ 53)"
    by (simp only: of_int_le_iff)
  then have "of_int (rhe (p / ulp p)) * ulp p \<le> of_int (2 ^ 53) * ulp p"
    using ulp_pos [of p] by (simp only: mult_le_cancel_right_pos)
  then show ?thesis
    using assms ulp_scale [of p 1] by (simp add: fl_def)
qed

lemma fl_lower:
  assumes "0 < q" "- 1022 \<le> ilog2 q"
  shows "2 powi (ilog2 q) \<le> fl q"
proof -
  have fe: "fexp q = ilog2 q" using assms by (simp add: fexp_def)
  have "2 powi (ilog2 q) \<le> q" using assms(1) by (rule ilog2_bounds)
  moreover have sc: "2 powi (ilog2 q) = 2 powi 52 * ulp q"
    using ulp_scale [of q 0] by (simp add: fe)
  ultimately have "of_int (2 ^ 52) \<le> q / ulp q"
    using ulp_pos [of q] by (simp add: field_simps)
  then have "2 ^ 52 \<le> rhe (q / ulp q)" by (rule rhe_ge)
  then have "(of_int (2 ^ 52) :: rat) \<le> of_int (rhe (q / ulp q))"
    by (simp only: of_int_le_iff)
  then have "of_int (2 ^ 52) * ulp q \<le> of_int (rhe (q / ulp q)) * ulp q"
    using ulp_pos [of q] by (simp only: mult_le_cancel_right_pos)
  then show ?thesis
    using assms(1) sc by (simp add: fl_def)
qed

lemma fl_nonneg: "0 \<le> q \<Longrightarrow> 0 \<le> fl q"
proof -
  assume q: "0 \<le> q"
  then have "of_int 0 \<le> q / ulp q" using ulp_pos [of q] by simp
  then have "0 \<le> rhe (q / ulp q)" by (rule rhe_ge)
  then show ?thesis using ulp_pos [of q] by (simp add: fl_def)
qed

lemma fl_mono_pos:
  assumes "0 < p" "p \<le> q"
  shows "fl p \<le> fl q"
proof -
  have q0: "0 < q" using assms by simp
  have il: "ilog2 p \<le> ilog2 q" using assms by (rule ilog2_mono)
  then have fe: "fexp p \<le> fexp q" using assms by (simp add: fexp_def)
  show ?thesis
  proof (cases "fexp p = fexp q")
    case True
    then have u: "ulp p = ulp q" by (simp add: ulp_def)
    have "p / ulp q \<le> q / ulp q"
      using assms(2) ulp_pos [of q] by (simp add: divide_right_mono)
    then have "rhe (p / ulp q) \<le> rhe (q / ulp q)" by (rule rhe_mono)
    then have "(of_int (rhe (p / ulp q)) :: rat) \<le> of_int (rhe (q / ulp q))"
      by (simp only: of_int_le_iff)
    then have "of_int (rhe (p / ulp q)) * ulp q \<le> of_int (rhe (q / ulp q)) * ulp q"
      using ulp_pos [of q] by (simp only: mult_le_cancel_right_pos)
    then show ?thesis using assms(1) q0 u by (simp add: fl_def)
  next
    case False
    then have lt: "fexp p + 1 \<le> fexp q" using fe by simp
    then have "fexp q = ilog2 q" using q0 by (auto simp: fexp_def max_def split: if_splits)
    moreover have "- 1022 \<le> fexp q" by (simp add: fexp_def)
    ultimately have lo: "2 powi (fexp q) \<le> fl q" using fl_lower [of q] q0 by simp
    have "fl p \<le> 2 powi (fexp p + 1)" using assms(1) by (rule fl_upper)
    also have "\<dots> \<le> 2 powi (fexp q)"
      using lt by (intro power_int_increasing) simp_all
    also have "\<dots> \<le> fl q" by (rule lo)
    finally show ?thesis .
  qed
qed

lemma fl_mono: "0 \<le> p \<Longrightarrow> p \<le> q \<Longrightarrow> fl p \<le> fl q"
  using fl_mono_pos [of p q] fl_nonneg [of q] by (cases "p = 0") (simp_all add: fl_def)

section \<open>Bounds on the risk score\<close>

lemma fl_0: "fl 0 = 0" by (simp add: fl_def)
lemma fl_1: "fl 1 = 1" by code_simp
lemma fl_9: "fl 9 = 9" by code_simp
lemma fl_10: "fl 10 = 10" by code_simp
lemma fl_tenth_times_10: "fl (fl (1/10) * 10) = 1" by code_simp

lemma tenth_nonneg: "0 \<le> fl (1/10)" by (rule fl_nonneg) simp

lemma round1_mono: 
  assumes "0 \<le> x" "x \<le> y" shows "round1 x \<le> round1 y"
proof -
  have "rhe (x * 10) \<le> rhe (y * 10)" using assms by (intro rhe_mono) simp
  moreover have "0 \<le> rhe (x * 10)" using assms by (intro rhe_ge) simp
  ultimately show ?thesis unfolding round1_def by (intro fl_mono) simp_all
qed

lemma round1_0: "round1 0 = 0" by code_simp
lemma round1_1: "round1 1 = 1" by code_simp
lemma round1_9: "round1 9 = 9" by code_simp
lemma round1_10: "round1 10 = 10" by code_simp

lemma weight_bounds: "0 \<le> dict_get severity_weights s 0" "dict_get severity_weights s 0 \<le> 10"
  by (simp_all add: dict_get_def severity_weights_def)

lemma weight_known: "known_severity s \<Longrightarrow> 1 \<le> dict_get severity_weights s 0"
  by (auto simp: known_severity_def dict_get_def severity_weights_def)

lemma total_bounds:
  "0 \<le> (\<Sum>v\<leftarrow>vs. dict_get severity_weights (severity v) 0)"
  "(\<Sum>v\<leftarrow>vs. dict_get severity_weights (severity v) 0) \<le> int (length vs) * 10"
  by (induction vs) (use weight_bounds in \<open>auto simp: algebra_simps intro: add_nonneg_nonneg add_mono\<close>)

lemma total_known:
  "\<forall>v\<in>set vs. known_severity (severity v) \<Longrightarrow>
   int (length vs) \<le> (\<Sum>v\<leftarrow>vs. dict_get severity_weights (severity v) 0)"
  by (induction vs) (use weight_known in \<open>auto intro: add_mono\<close>)

lemma score_shape:
  assumes "0 \<le> t" "t \<le> n * 10" "0 < n"
  shows "0 \<le> round1 (fmul (int_truediv t (n * 10)) 10)"
    and "round1 (fmul (int_truediv t (n * 10)) 10) \<le> 10"
proof -
  let ?q = "of_int t / of_int (n * 10) :: rat"
  have q: "0 \<le> ?q" "?q \<le> 1" using assms by (simp_all add: field_simps)
  have a: "0 \<le> fl ?q" using q by (intro fl_nonneg)
  have b: "fl ?q \<le> 1" using fl_mono [of ?q 1] q by (simp add: fl_1)
  have c: "0 \<le> fl (fl ?q * 10)" using a by (intro fl_nonneg) simp
  have d: "fl (fl ?q * 10) \<le> 10" using fl_mono [of "fl ?q * 10" 10] a b by (simp add: fl_10)
  show "0 \<le> round1 (fmul (int_truediv t (n * 10)) 10)"
    using round1_mono [of 0 "fl (fl ?q * 10)"] c by (simp add: round1_0 fmul_def int_truediv_def)
  show "round1 (fmul (int_truediv t (n * 10)) 10) \<le> 10"
    using round1_mono [of "fl (fl ?q * 10)" 10] c d by (simp add: round1_10 fmul_def int_truediv_def)
qed

lemma score_lower:
  assumes "n \<le> t" "0 < n"
  shows "1 \<le> round1 (fmul (int_truediv t (n * 10)) 10)"
proof -
  let ?q = "of_int t / of_int (n * 10) :: rat"
  have q: "1 / 10 \<le> ?q" using assms by (simp add: field_simps)
  have a: "fl (1/10) \<le> fl ?q" using q by (intro fl_mono) simp_all
  have "fl (fl (1/10) * 10) \<le> fl (fl ?q * 10)" using a tenth_nonneg by (intro fl_mono) simp_all
  then have c: "1 \<le> fl (fl ?q * 10)" by (simp add: fl_tenth_times_10)
  show ?thesis
    using round1_mono [of 1 "fl (fl ?q * 10)"] c by (simp add: round1_1 fmul_def int_truediv_def)
qed

lemma spec_weight_eq:
  "known_severity s \<Longrightarrow> dict_get severity_weights s 0 = spec_weight s"
  by (auto simp: known_severity_def dict_get_def severity_weights_def spec_weight_def)

lemma spec_total_eq:
  "\<forall>v\<in>set vs. known_severity (severity v) \<Longrightarrow>
   (\<Sum>v\<leftarrow>vs. dict_get severity_weights (severity v) 0) = (\<Sum>v\<leftarrow>vs. spec_weight (severity v))"
  by (induction vs) (simp_all add: spec_weight_eq)

lemma calculate_risk_score_nonempty:
  "vs \<noteq> [] \<Longrightarrow> calculate_risk_score vs =
     round1 (fmul (int_truediv (\<Sum>v\<leftarrow>vs. dict_get severity_weights (severity v) 0)
                               (int (length vs) * 10)) 10)"
  by (simp add: calculate_risk_score_def Let_def)

lemma fl_799: "fl (799/100) = 4497970127836283/562949953421312" by code_simp
lemma fl_599: "fl (599/100) = 3372070220993659/562949953421312" by code_simp
lemma fl_399: "fl (399/100) = 2246170314151035/562949953421312" by code_simp

lemma lower_keys:
  "lower ''fintech'' = ''fintech''" "lower ''healthcare'' = ''healthcare''"
  "lower ''ecommerce'' = ''ecommerce''" "lower ''enterprise'' = ''enterprise''"
  "lower ''consumer'' = ''consumer''"
  by (simp_all add: lower_def lower_char_def)

lemma industry_factor_spec:
  "dict_get industry_factors (lower industry) 1 = spec_industry_multiplier industry"
  by (simp add: dict_get_def industry_factors_def spec_industry_multiplier_def caseless_eq_def
      lower_keys)

section \<open>Bounds on the business-impact score\<close>

lemma fl_18: "fl 18 = 18" by code_simp
lemma fl_27: "fl 27 = 27" by code_simp
lemma fl_36: "fl 36 = 36" by code_simp
lemma fl_45: "fl 45 = 45" by code_simp

lemma fl_9k: "k \<le> 5 \<Longrightarrow> fl (9 * of_nat k) = 9 * of_nat k"
proof -
  assume "k \<le> 5"
  then have "k = 0 \<or> k = 1 \<or> k = 2 \<or> k = 3 \<or> k = 4 \<or> k = 5" by arith
  then show ?thesis
    by (elim disjE) (simp_all add: fl_0 fl_9 fl_18 fl_27 fl_36 fl_45)
qed

lemma multiplier_consts:
  "0 \<le> fl (8/10)" "fl (8/10) \<le> 1" "0 \<le> fl (6/10)" "fl (6/10) \<le> 1"
  "0 \<le> fl (3/10)" "fl (3/10) \<le> 1"
  using fl_mono [of "8/10" 1] fl_mono [of "6/10" 1] fl_mono [of "3/10" 1]
  by (simp_all add: fl_nonneg fl_1)

lemma impact_score_spec: "impact_score v = spec_impact v"
  by (simp add: impact_score_def spec_impact_def Let_def dict_get_def
      high_impact_categories_def severity_multiplier_def spec_base_impact_def
      spec_severity_multiplier_def)

lemma spec_base_impact_bounds: "0 \<le> spec_base_impact c" "spec_base_impact c \<le> 9"
  by (simp_all add: spec_base_impact_def)

lemma spec_severity_multiplier_bounds:
  "0 \<le> spec_severity_multiplier s" "spec_severity_multiplier s \<le> 1"
  using multiplier_consts by (simp_all add: spec_severity_multiplier_def)

lemma impact_score_bounds: "0 \<le> impact_score v" "impact_score v \<le> 9"
proof -
  let ?b = "spec_base_impact (vuln_get v ''category'' '''')"
  let ?m = "spec_severity_multiplier (vuln_get v ''severity'' ''low'')"
  have p: "0 \<le> ?b * ?m"
    using spec_base_impact_bounds(1) spec_severity_multiplier_bounds(1) by (rule mult_nonneg_nonneg)
  have "?b * ?m \<le> 9 * 1"
    using spec_base_impact_bounds spec_severity_multiplier_bounds by (intro mult_mono) simp_all
  then have q: "?b * ?m \<le> 9" by simp
  show "0 \<le> impact_score v" using p by (simp add: impact_score_spec spec_impact_def fmul_def fl_nonneg)
  show "impact_score v \<le> 9"
    using fl_mono [OF p q] by (simp add: impact_score_spec spec_impact_def fmul_def fl_9)
qed

lemma foldl_fadd_bounds:
  assumes "\<forall>x\<in>set xs. 0 \<le> x \<and> x \<le> 9" "0 \<le> a" "a \<le> 9 * of_nat m" "m + length xs \<le> 5"
  shows "0 \<le> foldl fadd a xs \<and> foldl fadd a xs \<le> 9 * of_nat (m + length xs)"
  using assms
proof (induction xs arbitrary: a m)
  case Nil
  then show ?case by simp
next
  case (Cons x xs)
  have x: "0 \<le> x" "x \<le> 9" using Cons.prems(1) by simp_all
  have s0: "0 \<le> a + x" using x Cons.prems(2) by simp
  have s1: "a + x \<le> 9 * of_nat (Suc m)" using x Cons.prems(3) by (simp add: algebra_simps)
  have m5: "Suc m \<le> 5" using Cons.prems(4) by simp
  have a0: "0 \<le> fadd a x" using s0 by (simp add: fadd_def fl_nonneg)
  have a1: "fadd a x \<le> 9 * of_nat (Suc m)"
    using fl_mono [OF s0 s1] fl_9k [OF m5] by (simp add: fadd_def)
  have "0 \<le> foldl fadd (fadd a x) xs \<and>
        foldl fadd (fadd a x) xs \<le> 9 * of_nat (Suc m + length xs)"
    using Cons.prems by (intro Cons.IH a0 a1) simp_all
  then show ?case by simp
qed

lemma fsum_bounds:
  assumes "\<forall>x\<in>set xs. 0 \<le> x \<and> x \<le> 9" "length xs \<le> 5"
  shows "0 \<le> fsum xs" "fsum xs \<le> 9 * of_nat (length xs)"
  using foldl_fadd_bounds [of xs 0 0] assms by (simp_all add: fsum_def)

lemma average_bounds:
  assumes "\<forall>x\<in>set xs. 0 \<le> x \<and> x \<le> 9" "length xs \<le> 5" "xs \<noteq> []"
  shows "0 \<le> round1 (fdiv (fsum xs) (of_nat (length xs)))"
    and "round1 (fdiv (fsum xs) (of_nat (length xs))) \<le> 9"
proof -
  let ?n = "of_nat (length xs) :: rat"
  have n: "0 < ?n" using assms(3) by simp
  note b = fsum_bounds [OF assms(1,2)]
  have q0: "0 \<le> fsum xs / ?n" using b(1) n by simp
  have q1: "fsum xs / ?n \<le> 9" using b(2) n by (simp add: field_simps)
  have d0: "0 \<le> fdiv (fsum xs) ?n" using q0 by (simp add: fdiv_def fl_nonneg)
  have d1: "fdiv (fsum xs) ?n \<le> 9" using fl_mono [OF q0 q1] by (simp add: fdiv_def fl_9)
  show "0 \<le> round1 (fdiv (fsum xs) ?n)" using round1_mono [OF _ d0] by (simp add: round1_0)
  show "round1 (fdiv (fsum xs) ?n) \<le> 9" using round1_mono [OF d0 d1] by (simp add: round1_9)
qed

lemma calculate_business_impact_score_nonempty:
  "vs \<noteq> [] \<Longrightarrow> calculate_business_impact_score vs =
     round1 (fdiv (fsum (take 5 (sort_reverse (map impact_score vs))))
                  (of_nat (length (take 5 (sort_reverse (map impact_score vs))))))"
  by (simp add: calculate_business_impact_score_def Let_def)

lemma business_impact_bounds:
  "0 \<le> calculate_business_impact_score vs" "calculate_business_impact_score vs \<le> 9"
proof -
  let ?top = "take 5 (sort_reverse (map impact_score vs))"
  have el: "\<forall>x\<in>set ?top. 0 \<le> x \<and> x \<le> 9"
  proof
    fix x assume "x \<in> set ?top"
    then have "x \<in> set (sort_reverse (map impact_score vs))" by (rule in_set_takeD)
    then have "x \<in> impact_score ` set vs" by (simp add: sort_reverse_def)
    then show "0 \<le> x \<and> x \<le> 9" using impact_score_bounds by auto
  qed
  have len: "length ?top \<le> 5" by simp
  show "0 \<le> calculate_business_impact_score vs"
  proof (cases "vs = []")
    case True then show ?thesis by (simp add: calculate_business_impact_score_def)
  next
    case False
    then have "length ?top \<noteq> 0" by (simp add: sort_reverse_def)
    then have t: "?top \<noteq> []" by (simp only: length_0_conv not_False_eq_True)
    show ?thesis
      unfolding calculate_business_impact_score_nonempty [OF False]
      by (rule average_bounds(1) [OF el len t])
  qed
  show "calculate_business_impact_score vs \<le> 9"
  proof (cases "vs = []")
    case True then show ?thesis by (simp add: calculate_business_impact_score_def)
  next
    case False
    then have "length ?top \<noteq> 0" by (simp add: sort_reverse_def)
    then have t: "?top \<noteq> []" by (simp only: length_0_conv not_False_eq_True)
    show ?thesis
      unfolding calculate_business_impact_score_nonempty [OF False]
      by (rule average_bounds(2) [OF el len t])
  qed
qed

lemma take_min_length: "take (min k (length xs)) xs = take k xs"
  by (cases "k \<le> length xs") (simp_all add: min_def)

section \<open>The severity distribution and the sums over it\<close>

lemma count_severity_alt:
  "count_severity d v = AList.update (sev_of v) (dict_get d (sev_of v) 0 + 1) d"
  by (simp add: count_severity_def sev_of_def Let_def)

lemma dict_get_update:
  "dict_get (AList.update k x d) s y = (if s = k then x else dict_get d s y)"
  by (simp add: dict_get_def update_conv')

lemma dict_get_count_severity:
  "dict_get (count_severity d v) s 0 = dict_get d s 0 + (if s = sev_of v then 1 else 0)"
  by (simp add: count_severity_alt dict_get_update)

lemma map_of_count_severity:
  "map_of (count_severity d v) = (map_of d)(sev_of v \<mapsto> dict_get d (sev_of v) 0 + 1)"
  by (simp add: count_severity_alt update_conv')

lemma distinct_count_severity:
  "distinct (map fst d) \<Longrightarrow> distinct (map fst (count_severity d v))"
  by (simp add: count_severity_alt distinct_update)

lemma distinct_distribution:
  "distinct (map fst d) \<Longrightarrow> distinct (map fst (foldl count_severity d vs))"
  by (induction vs arbitrary: d) (simp_all add: distinct_count_severity)

lemma map_of_distribution:
  "map_of (foldl count_severity d vs) s =
     (if s \<in> sev_of ` set vs
      then Some (dict_get d s 0 + int (count (mset (map sev_of vs)) s))
      else map_of d s)"
proof (induction vs arbitrary: d)
  case Nil
  then show ?case by simp
next
  case (Cons v vs)
  show ?case
    by (simp add: Cons.IH dict_get_count_severity map_of_count_severity) (auto simp: dict_get_def count_eq_zero_iff)
qed

lemma sum_update:
  "(\<Sum>(k, c)\<leftarrow>AList.update s x d. f k * c) =
   (\<Sum>(k, c)\<leftarrow>d. f k * c) + f s * (x - dict_get d s 0)"
  for f :: "string \<Rightarrow> int"
  by (induction d) (auto simp: dict_get_def algebra_simps)

lemma sum_count_severity:
  "(\<Sum>(k, c)\<leftarrow>count_severity d v. f k * c) = (\<Sum>(k, c)\<leftarrow>d. f k * c) + f (sev_of v)"
  for f :: "string \<Rightarrow> int"
  by (simp add: count_severity_alt sum_update)

lemma sum_distribution:
  "(\<Sum>(k, c)\<leftarrow>foldl count_severity d vs. f k * c) =
   (\<Sum>(k, c)\<leftarrow>d. f k * c) + (\<Sum>v\<leftarrow>vs. f (sev_of v))"
  for f :: "string \<Rightarrow> int"
  by (induction vs arbitrary: d) (simp_all add: sum_count_severity)

lemma foldl_days:
  "foldl (\<lambda>t (s, c). t + g s * c) a d = a + (\<Sum>(s, c)\<leftarrow>d. g s * c)"
  for g :: "string \<Rightarrow> int"
  by (induction d arbitrary: a) (auto simp: algebra_simps)

lemma estimate_timeline_alt:
  "estimate_timeline d =
     round1 (fdiv (fmul (int_truediv (\<Sum>(s, c)\<leftarrow>d. days_of s * c) 2) (fl (12/10))) 30)"
  using foldl_days [of days_of 0 d] by (simp add: estimate_timeline_def Let_def days_of_def)

lemma foldl_costs:
  "foldl (\<lambda>(costs, total_cost) (severity, count).
            let base_cost = dict_get remediation_costs severity 1000;
                severity_cost = base_cost * count
            in (AList.update severity severity_cost costs, total_cost + severity_cost))
         (cs, t) d =
   (foldl (\<lambda>costs (s, c). AList.update s (cost_of s * c) costs) cs d,
    t + (\<Sum>(s, c)\<leftarrow>d. cost_of s * c))"
  by (induction d arbitrary: cs t) (auto simp: Let_def cost_of_def algebra_simps)

lemma calculate_remediation_cost_alt:
  "calculate_remediation_cost d =
     AList.update ''total'' (\<Sum>(s, c)\<leftarrow>d. cost_of s * c)
       (foldl (\<lambda>costs (s, c). AList.update s (cost_of s * c) costs) [] d)"
  unfolding calculate_remediation_cost_def foldl_costs by simp

lemma map_of_costs:
  "map_of (foldl (\<lambda>costs (s, c). AList.update s (g s c) costs) cs d) k =
     (case map_of (rev d) k of Some c \<Rightarrow> Some (g k c) | None \<Rightarrow> map_of cs k)"
proof (induction d arbitrary: cs)
  case Nil
  then show ?case by simp
next
  case (Cons p d)
  obtain s c where p: "p = (s, c)" by (cases p)
  show ?case
    by (simp add: p Cons.IH update_conv' map_add_def split: option.splits)
qed

lemma map_of_rev_distinct: "distinct (map fst d) \<Longrightarrow> map_of (rev d) = map_of d"
  by (metis distinct_rev map_of_inject_set rev_map set_rev distinct_map)

section \<open>Permuting the findings\<close>

lemma risk_score_perm:
  assumes "mset vs' = mset vs"
  shows "calculate_risk_score vs' = calculate_risk_score vs"
proof -
  have e: "(vs' = []) = (vs = [])" using assms by (metis mset_zero_iff)
  have l: "length vs' = length vs" using assms by (rule mset_eq_length)
  have "mset (map (\<lambda>v. dict_get severity_weights (severity v) 0) vs')
      = mset (map (\<lambda>v. dict_get severity_weights (severity v) 0) vs)"
    using assms by simp
  then have "(\<Sum>v\<leftarrow>vs'. dict_get severity_weights (severity v) 0)
      = (\<Sum>v\<leftarrow>vs. dict_get severity_weights (severity v) 0)"
    by (metis sum_mset_sum_list)
  then show ?thesis by (simp add: calculate_risk_score_def e l)
qed

lemma sum_list_perm:
  fixes f :: "'a \<Rightarrow> int"
  assumes "mset ds' = mset ds"
  shows "(\<Sum>v\<leftarrow>ds'. f v) = (\<Sum>v\<leftarrow>ds. f v)"
proof -
  have "mset (map f ds') = mset (map f ds)" using assms by simp
  then show ?thesis by (metis sum_mset_sum_list)
qed

lemma distribution_perm:
  assumes "mset ds' = mset ds"
  shows "map_of (foldl count_severity [] ds') = map_of (foldl count_severity [] ds)"
proof
  fix s
  have "set ds' = set ds" using assms by (rule mset_eq_setD)
  moreover have "mset (map sev_of ds') = mset (map sev_of ds)" using assms by simp
  ultimately show "map_of (foldl count_severity [] ds') s = map_of (foldl count_severity [] ds) s"
    by (simp add: map_of_distribution)
qed

lemma days_total:
  "(\<Sum>(s, c)\<leftarrow>foldl count_severity [] ds. days_of s * c) = (\<Sum>v\<leftarrow>ds. days_of (sev_of v))"
  using sum_distribution [of days_of "[]" ds] by simp

lemma cost_total:
  "(\<Sum>(s, c)\<leftarrow>foldl count_severity [] ds. cost_of s * c) = (\<Sum>v\<leftarrow>ds. cost_of (sev_of v))"
  using sum_distribution [of cost_of "[]" ds] by simp

lemma timeline_perm:
  assumes "mset ds' = mset ds"
  shows "estimate_timeline (foldl count_severity [] ds')
       = estimate_timeline (foldl count_severity [] ds)"
  using sum_list_perm [OF assms, of "\<lambda>v. days_of (sev_of v)"]
  by (simp add: estimate_timeline_alt days_total)

lemma map_of_remediation_cost:
  "map_of (calculate_remediation_cost (foldl count_severity [] ds)) k =
     (if k = ''total'' then Some (\<Sum>v\<leftarrow>ds. cost_of (sev_of v))
      else map_option (\<lambda>c. cost_of k * c) (map_of (foldl count_severity [] ds) k))"
proof -
  have "distinct (map fst (foldl count_severity [] ds))"
    by (rule distinct_distribution) simp
  then have r: "map_of (rev (foldl count_severity [] ds)) = map_of (foldl count_severity [] ds)"
    by (rule map_of_rev_distinct)
  show ?thesis
    by (simp add: calculate_remediation_cost_alt update_conv' cost_total map_of_costs r
        split: option.splits)
qed

lemma remediation_cost_perm:
  assumes "mset ds' = mset ds"
  shows "map_of (calculate_remediation_cost (foldl count_severity [] ds'))
       = map_of (calculate_remediation_cost (foldl count_severity [] ds))"
proof
  fix k
  show "map_of (calculate_remediation_cost (foldl count_severity [] ds')) k
      = map_of (calculate_remediation_cost (foldl count_severity [] ds)) k"
    using sum_list_perm [OF assms, of "\<lambda>v. cost_of (sev_of v)"] distribution_perm [OF assms]
    by (simp add: map_of_remediation_cost)
qed

lemma business_impact_perm:
  assumes "mset ds' = mset ds"
  shows "calculate_business_impact_score ds' = calculate_business_impact_score ds"
proof -
  have e: "(ds' = []) = (ds = [])" using assms by (metis mset_zero_iff)
  have "mset (map impact_score ds') = mset (map impact_score ds)" using assms by simp
  then have "sort (map impact_score ds') = sort (map impact_score ds)"
    by (metis properties_for_sort mset_sort sorted_sort)
  then show ?thesis
    by (simp add: calculate_business_impact_score_def sort_reverse_def e)
qed

lemma map_of_distribution_mset:
  "map_of (foldl count_severity [] ds) s =
     (if s \<in> sev_of ` set ds then Some (int (count (image_mset sev_of (mset ds)) s)) else None)"
  by (simp add: map_of_distribution dict_get_def)

lemma sum_list_sev:
  fixes f :: "string \<Rightarrow> int"
  shows "(\<Sum>v\<leftarrow>ds. f (sev_of v)) = sum_mset (image_mset f (image_mset sev_of (mset ds)))"
proof -
  have "(\<Sum>v\<leftarrow>ds. f (sev_of v)) = sum_list (map f (map sev_of ds))" by (simp add: comp_def)
  also have "\<dots> = sum_mset (mset (map f (map sev_of ds)))" by (simp only: sum_mset_sum_list)
  also have "\<dots> = sum_mset (image_mset f (image_mset sev_of (mset ds)))" by (simp only: mset_map)
  finally show ?thesis .
qed

lemma table_values:
  "cost_of ''critical'' = 15000" "cost_of ''high'' = 8000" "cost_of ''medium'' = 3000"
  "days_of ''critical'' = 30" "days_of ''high'' = 14" "days_of ''medium'' = 7"
  by (simp_all add: cost_of_def days_of_def dict_get_def remediation_costs_def timeline_days_def)

lemma timeline_65: "round1 (fdiv (fmul (int_truediv 65 2) (fl (12/10))) 30) = fl (13/10)"
  by code_simp

section \<open>The walk, the heap and the decoder\<close>

lemma startswith_append: "startswith s t \<Longrightarrow> startswith (s @ u) t"
  by (induction s t rule: startswith.induct) simp_all

lemma str_in_nil: "str_in [] s"
  by (cases s) simp_all

lemma str_in_append: "str_in t s \<Longrightarrow> str_in t (s @ u)"
proof (induction s)
  case Nil
  then show ?case by (simp add: str_in_nil)
next
  case (Cons x s)
  then show ?case using startswith_append [of "x # s" t u] by auto
qed

lemma str_in_prepend: "str_in t s \<Longrightarrow> str_in t (u @ s)"
  by (induction u) simp_all

lemma skip_token_not_dot:
  "tok \<in> set skip_patterns \<Longrightarrow> str_in tok target \<Longrightarrow> target \<noteq> [] \<and> target \<noteq> ''.''"
  by (auto simp: skip_patterns_def)

lemma root_token_skips:
  assumes "tok \<in> set skip_patterns" "str_in tok target"
  shows "should_skip_file (full_path target rel)"
proof -
  have "str_in tok (full_path target rel)"
    using skip_token_not_dot [OF assms] assms(2)
    by (auto simp: full_path_def intro: str_in_append)
  then show ?thesis using assms(1) by (auto simp: should_skip_file_def list_ex_iff)
qed

lemma list_extend_nil: "list_extend l [] h = h"
  by (simp add: list_extend_def)

lemma list_extend_twice: "list_extend l b (list_extend l a h) = list_extend l (a @ b) h"
  by (simp add: list_extend_def)

lemma lists_list_extend: "lists (list_extend l vs h) k = (if k = l then lists h l @ vs else lists h k)"
  by (simp add: list_extend_def)

lemma limit_list_extend: "limit (list_extend l vs h) = limit h"
  by (simp add: list_extend_def)

lemma scan_step_alt:
  "scan_step self (n, h) e =
     (if eligible (target_path self) e
      then (Suc n, list_extend (SecurityAuditor.vulnerabilities self) (scan_file e) h)
      else (n, h))"
  by (simp add: scan_step_def)

lemma foldl_scan_step:
  "foldl (scan_step self) (n, h) tree =
     (n + length (scanned (target_path self) tree),
      list_extend (SecurityAuditor.vulnerabilities self) (found (target_path self) tree) h)"
proof (induction tree arbitrary: n h)
  case Nil
  then show ?case by (simp add: scanned_def found_def list_extend_nil)
next
  case (Cons e tree)
  show ?case
    by (simp add: scan_step_alt Cons.IH) (simp add: scanned_def found_def list_extend_twice)
qed

lemma scan_directory_alt:
  "scan_directory self tree h =
     (\<lparr>total_files_scanned = length (scanned (target_path self) tree),
       vulnerabilities = SecurityAuditor.vulnerabilities self,
       risk_score = calculate_risk_score
         (lists h (SecurityAuditor.vulnerabilities self) @ found (target_path self) tree)\<rparr>,
      list_extend (SecurityAuditor.vulnerabilities self) (found (target_path self) tree) h)"
  by (simp add: scan_directory_def foldl_scan_step lists_list_extend)




lemma decode_ascii: "\<forall>b\<in>set bs. b < 128 \<Longrightarrow> utf8_decode_ignore bs = bs"
  by (induction bs) (simp_all add: utf8_first_def)

section \<open>Scans of the sample files\<close>

lemmas rx_defs = quoted_then_plus_def call_with_plus_def call_with_dollar_def
  assigned_literal_def cat_def str_def ws_def anything_def plus_def opt_def
  quote_def unquoted_def no_paren_def no_semicolon_def

lemmas atom_defs = lit_def fold_case_def dot_def none_of_def one_of_def letter_def
  letter_or_digit_def is_space_def

lemma at_least_numeral: "at_least (numeral k) r = Seq r (at_least (pred_numeral k) r)"
  by (simp add: numeral_eq_Suc)

lemma read_A: "split_newline (read_text scenario_A_bytes) = [scenario_A_bytes]"
  by (simp add: read_text_def scenario_A_bytes_def utf8_first_def)

lemma scan_A: "scan_lines rel [scenario_A_bytes] = []"
  by (simp add: scan_lines_def patterns_def scenario_A_bytes_def rx_defs atom_defs at_least_numeral)

lemma read_B: "split_newline (read_text plus_in_literal_bytes) = [plus_in_literal_bytes]"
  by (simp add: read_text_def plus_in_literal_bytes_def utf8_first_def)

lemma scan_B: "scan_lines rel [plus_in_literal_bytes] =
    [\<lparr>severity = ''critical'', category = ''sql_injection'',
      description = ''Database query with concatenation'',
      file_path = rel, line_number = 1,
      code_snippet = plus_in_literal_bytes,
      remediation = ''Use parameterized queries or prepared statements.'',
      cwe_id = ''CWE-89'', cvss_score = 9\<rparr>]"
  by (simp add: scan_lines_def patterns_def plus_in_literal_bytes_def rx_defs atom_defs
      at_least_numeral get_severity_def get_remediation_def get_cwe_id_def get_cvss_score_def
      dict_get_def strip_def)




lemma eligible_app_js: "eligible ''proj'' plus_in_literal_file" "eligible ''proj'' scenario_A_file"
  by (simp_all add: eligible_def plus_in_literal_file_def scenario_A_file_def full_path_def
      suffix_def path_name_def rfind_dot_def lower_def lower_char_def file_extensions_def
      should_skip_file_def skip_patterns_def)

lemma init_alt:
  "init target h =
     (\<lparr>target_path = target, vulnerabilities = limit h\<rparr>,
      h\<lparr>lists := (lists h)(limit h := []), limit := Suc (limit h)\<rparr>)"
  by (simp add: init_def new_list_def)

lemma scanned_skip_root:
  assumes "tok \<in> set skip_patterns" "str_in tok target"
  shows "scanned target tree = []"
  using root_token_skips [OF assms] by (simp add: scanned_def eligible_def)

lemma found_single: "eligible target e \<Longrightarrow> found target [e] = scan_file e"
  by (simp add: found_def scanned_def)

lemma scan_file_A: "scan_file scenario_A_file = []"
  by (simp add: scan_file_def scenario_A_file_def read_A scan_A)

lemma scan_file_B: "scan_file plus_in_literal_file =
    [\<lparr>severity = ''critical'', category = ''sql_injection'',
      description = ''Database query with concatenation'',
      file_path = ''app.js'', line_number = 1,
      code_snippet = plus_in_literal_bytes,
      remediation = ''Use parameterized queries or prepared statements.'',
      cwe_id = ''CWE-89'', cvss_score = 9\<rparr>]"
  by (simp add: scan_file_def plus_in_literal_file_def read_B scan_B)

lemma first_scan_val:
  "findings (fst first_scan) (snd first_scan) = scan_file plus_in_literal_file"
  "AuditResult.vulnerabilities (fst first_scan) = 0"
  "limit (snd first_scan) = 1"
  using found_single [OF eligible_app_js(1)]
  by (simp_all add: first_scan_def scan_directory_alt init_alt findings_def lists_list_extend
      empty_heap_def limit_list_extend)

lemma second_scan_val:
  "findings (fst first_scan) (snd second_scan)
     = scan_file plus_in_literal_file @ scan_file plus_in_literal_file"
  using found_single [OF eligible_app_js(1)]
  by (simp add: second_scan_def first_scan_def scan_directory_alt init_alt findings_def
      lists_list_extend empty_heap_def)



section \<open>The decoder and well-formed UTF-8\<close>


















section \<open>The claims\<close>

text \<open>
  Claim C2. For every list of findings the risk score lies between 0 and 10 and is 0
  for the empty list. When every finding has one of the four severities critical,
  high, medium, low, the score is round(sum of the weights 10, 7, 4, 1 over
  (count * 10), times 10, to one decimal), and it is 0 exactly when the list is empty.
\<close>

theorem risk_score_formula_and_range:
  "0 \<le> calculate_risk_score vs \<and> calculate_risk_score vs \<le> 10 \<and>
   calculate_risk_score [] = 0 \<and>
   ((\<forall>v\<in>set vs. known_severity (severity v)) \<longrightarrow>
      calculate_risk_score vs = spec_risk_score vs \<and>
      (calculate_risk_score vs = 0 \<longleftrightarrow> vs = []))"
proof (cases "vs = []")
  case True
  then show ?thesis by (simp add: calculate_risk_score_def spec_risk_score_def)
next
  case False
  then have n: "0 < int (length vs)" by simp
  note tb = total_bounds [of vs]
  have r: "0 \<le> calculate_risk_score vs" "calculate_risk_score vs \<le> 10"
    using score_shape [OF tb n] False by (simp_all add: calculate_risk_score_nonempty)
  have e: "calculate_risk_score [] = 0" by (simp add: calculate_risk_score_def)
  have k: "calculate_risk_score vs = spec_risk_score vs \<and> calculate_risk_score vs \<noteq> 0"
    if h: "\<forall>v\<in>set vs. known_severity (severity v)"
  proof -
    have "1 \<le> calculate_risk_score vs"
      using score_lower [OF total_known [OF h] n] False
      by (simp add: calculate_risk_score_nonempty)
    moreover have "calculate_risk_score vs = spec_risk_score vs"
      using False spec_total_eq [OF h]
      by (simp add: calculate_risk_score_nonempty spec_risk_score_def)
    ultimately show ?thesis by simp
  qed
  show ?thesis using r e k False by blast
qed

theorem risk_score_formula_and_range_witness:
  "known_severity (severity (finding_of ''critical'')) \<and>
   known_severity (severity (finding_of ''high'')) \<and>
   known_severity (severity (finding_of ''low'')) \<and>
   calculate_risk_score [finding_of ''critical'', finding_of ''high'', finding_of ''low'']
     = spec_risk_score [finding_of ''critical'', finding_of ''high'', finding_of ''low''] \<and>
   calculate_risk_score [finding_of ''critical'', finding_of ''high'', finding_of ''low''] \<noteq> 0"
  using risk_score_formula_and_range
    [of "[finding_of ''critical'', finding_of ''high'', finding_of ''low'']"]
  by (simp add: known_severity_def finding_of_def)

text \<open>
  Claim C5. The risk level of the executive summary follows the thresholds on the
  adjusted risk score, the highest first: CRITICAL from 8.0, HIGH from 6.0, MEDIUM from
  4.0, LOW below; so 8.0 is CRITICAL, 7.99 HIGH, 6.0 HIGH, 5.99 MEDIUM, 4.0 MEDIUM and
  3.99 LOW.
\<close>

theorem risk_level_thresholds:
  "(risk_level (generate_executive_summary rm) = ''CRITICAL'' \<longleftrightarrow> 8 \<le> risk_score rm) \<and>
   (risk_level (generate_executive_summary rm) = ''HIGH'' \<longleftrightarrow> 6 \<le> risk_score rm \<and> risk_score rm < 8) \<and>
   (risk_level (generate_executive_summary rm) = ''MEDIUM'' \<longleftrightarrow> 4 \<le> risk_score rm \<and> risk_score rm < 6) \<and>
   (risk_level (generate_executive_summary rm) = ''LOW'' \<longleftrightarrow> risk_score rm < 4) \<and>
   risk_level (generate_executive_summary (rm\<lparr>risk_score := 8\<rparr>)) = ''CRITICAL'' \<and>
   risk_level (generate_executive_summary (rm\<lparr>risk_score := fl (799/100)\<rparr>)) = ''HIGH'' \<and>
   risk_level (generate_executive_summary (rm\<lparr>risk_score := 6\<rparr>)) = ''HIGH'' \<and>
   risk_level (generate_executive_summary (rm\<lparr>risk_score := fl (599/100)\<rparr>)) = ''MEDIUM'' \<and>
   risk_level (generate_executive_summary (rm\<lparr>risk_score := 4\<rparr>)) = ''MEDIUM'' \<and>
   risk_level (generate_executive_summary (rm\<lparr>risk_score := fl (399/100)\<rparr>)) = ''LOW''"
  by (simp add: generate_executive_summary_def fl_799 fl_599 fl_399)

text \<open>
  Claim C4. The adjusted risk score is min(10.0, base risk score * industry multiplier),
  the multiplier found in the industry table whatever the case of the letters of the
  industry, and 1.0 for an industry the table does not have; it never exceeds 10.0.
\<close>

theorem adjusted_risk_score_capped:
  "risk_score (generate_risk_assessment ad industry)
     = min 10 (fmul (case ad_risk_score ad of None \<Rightarrow> 0 | Some r \<Rightarrow> r)
                    (spec_industry_multiplier industry)) \<and>
   risk_score (generate_risk_assessment ad industry) \<le> 10"
  by (simp add: generate_risk_assessment_def Let_def industry_factor_spec)

text \<open>
  Claim C3. The business-impact score is the per-finding impacts (base impact of the
  category, default 3.0, times the multiplier of the severity, default 0.3) sorted
  descending, the top min(5, count) averaged and rounded to one decimal; it lies
  between 0 and 10 and is 0.0 for no findings.
\<close>

theorem business_impact_top_five:
  "calculate_business_impact_score vs = spec_business_impact_score vs \<and>
   0 \<le> calculate_business_impact_score vs \<and> calculate_business_impact_score vs \<le> 10 \<and>
   calculate_business_impact_score [] = 0"
proof -
  have "(\<lambda>v. impact_score v) = spec_impact" by (rule ext) (rule impact_score_spec)
  moreover have "take (min 5 (length vs)) (rev (sort (map spec_impact vs)))
      = take 5 (rev (sort (map spec_impact vs)))"
    using take_min_length [of 5 "rev (sort (map spec_impact vs))"] by simp
  ultimately have "calculate_business_impact_score vs = spec_business_impact_score vs"
    by (simp add: calculate_business_impact_score_def spec_business_impact_score_def
        sort_reverse_def Let_def min.commute)
  moreover have "calculate_business_impact_score [] = 0"
    by (simp add: calculate_business_impact_score_def)
  moreover have "calculate_business_impact_score vs \<le> 10"
    using business_impact_bounds(2) [of vs] by simp
  ultimately show ?thesis using business_impact_bounds(1) [of vs] by simp
qed

text \<open>
  Claim C9. The risk scorer and the business risk calculator do not depend on the
  order of the findings: on a permutation of the list, the risk score, the number of
  findings, the severity distribution and the remediation costs (as dicts), the
  business-impact score, the timeline and the adjusted risk score are the same.
\<close>

theorem scoring_order_independent:
  assumes "mset vs' = mset vs" and "mset ds' = mset ds"
  shows "calculate_risk_score vs' = calculate_risk_score vs \<and>
    vulnerability_count (generate_risk_assessment
        \<lparr>ad_vulnerabilities = Some ds', ad_risk_score = r\<rparr> industry)
      = vulnerability_count (generate_risk_assessment
        \<lparr>ad_vulnerabilities = Some ds, ad_risk_score = r\<rparr> industry) \<and>
    map_of (severity_distribution (generate_risk_assessment
        \<lparr>ad_vulnerabilities = Some ds', ad_risk_score = r\<rparr> industry))
      = map_of (severity_distribution (generate_risk_assessment
        \<lparr>ad_vulnerabilities = Some ds, ad_risk_score = r\<rparr> industry)) \<and>
    map_of (remediation_cost (generate_risk_assessment
        \<lparr>ad_vulnerabilities = Some ds', ad_risk_score = r\<rparr> industry))
      = map_of (remediation_cost (generate_risk_assessment
        \<lparr>ad_vulnerabilities = Some ds, ad_risk_score = r\<rparr> industry)) \<and>
    business_impact_score (generate_risk_assessment
        \<lparr>ad_vulnerabilities = Some ds', ad_risk_score = r\<rparr> industry)
      = business_impact_score (generate_risk_assessment
        \<lparr>ad_vulnerabilities = Some ds, ad_risk_score = r\<rparr> industry) \<and>
    timeline_months (generate_risk_assessment
        \<lparr>ad_vulnerabilities = Some ds', ad_risk_score = r\<rparr> industry)
      = timeline_months (generate_risk_assessment
        \<lparr>ad_vulnerabilities = Some ds, ad_risk_score = r\<rparr> industry) \<and>
    risk_score (generate_risk_assessment
        \<lparr>ad_vulnerabilities = Some ds', ad_risk_score = r\<rparr> industry)
      = risk_score (generate_risk_assessment
        \<lparr>ad_vulnerabilities = Some ds, ad_risk_score = r\<rparr> industry)"
  using risk_score_perm [OF assms(1)] mset_eq_length [OF assms(2)]
    distribution_perm [OF assms(2)] remediation_cost_perm [OF assms(2)]
    business_impact_perm [OF assms(2)] timeline_perm [OF assms(2)]
  by (simp add: generate_risk_assessment_def Let_def)

theorem scoring_order_independent_witness:
  "mset [finding_of ''high'', finding_of ''critical'', finding_of ''low'']
     = mset [finding_of ''critical'', finding_of ''low'', finding_of ''high''] \<and>
   mset [vuln_of ''high'' ''xss'', vuln_of ''critical'' ''sql_injection'']
     = mset [vuln_of ''critical'' ''sql_injection'', vuln_of ''high'' ''xss''] \<and>
   calculate_risk_score [finding_of ''high'', finding_of ''critical'', finding_of ''low'']
     = calculate_risk_score [finding_of ''critical'', finding_of ''low'', finding_of ''high''] \<and>
   business_impact_score (generate_risk_assessment
       \<lparr>ad_vulnerabilities = Some [vuln_of ''high'' ''xss'', vuln_of ''critical'' ''sql_injection''],
        ad_risk_score = Some 6\<rparr> ''fintech'')
     = business_impact_score (generate_risk_assessment
       \<lparr>ad_vulnerabilities = Some [vuln_of ''critical'' ''sql_injection'', vuln_of ''high'' ''xss''],
        ad_risk_score = Some 6\<rparr> ''fintech'') \<and>
   timeline_months (generate_risk_assessment
       \<lparr>ad_vulnerabilities = Some [vuln_of ''high'' ''xss'', vuln_of ''critical'' ''sql_injection''],
        ad_risk_score = Some 6\<rparr> ''fintech'')
     = timeline_months (generate_risk_assessment
       \<lparr>ad_vulnerabilities = Some [vuln_of ''critical'' ''sql_injection'', vuln_of ''high'' ''xss''],
        ad_risk_score = Some 6\<rparr> ''fintech'')"
proof -
  have a: "mset [finding_of ''high'', finding_of ''critical'', finding_of ''low'']
     = mset [finding_of ''critical'', finding_of ''low'', finding_of ''high'']"
    by (simp add: add_mset_commute)
  have b: "mset [vuln_of ''high'' ''xss'', vuln_of ''critical'' ''sql_injection'']
     = mset [vuln_of ''critical'' ''sql_injection'', vuln_of ''high'' ''xss'']"
    by (simp add: add_mset_commute)
  show ?thesis
    using a b scoring_order_independent [OF a b, of "Some 6" "''fintech''"] by simp
qed

text \<open>
  Claim C6. For findings of severities critical (one), high (two) and medium (one), in
  any order, and industry fintech: the severity distribution is critical 1, high 2,
  medium 1; the remediation costs are 15000, 16000 and 3000, in total 34000; and the
  timeline is round(((30 + 28 + 7) / 2) * 1.2 / 30, 1), which is the float 1.3.
\<close>

theorem scenario_C_metrics:
  assumes "mset (map sev_of ds) = {#''critical'', ''high'', ''high'', ''medium''#}"
  shows "map_of (severity_distribution (generate_risk_assessment
        \<lparr>ad_vulnerabilities = Some ds, ad_risk_score = r\<rparr> ''fintech''))
      = [''critical'' \<mapsto> 1, ''high'' \<mapsto> 2, ''medium'' \<mapsto> 1] \<and>
    map_of (remediation_cost (generate_risk_assessment
        \<lparr>ad_vulnerabilities = Some ds, ad_risk_score = r\<rparr> ''fintech''))
      = [''critical'' \<mapsto> 15000, ''high'' \<mapsto> 16000, ''medium'' \<mapsto> 3000,
         ''total'' \<mapsto> 15000 + 16000 + 3000] \<and>
    dict_get (remediation_cost (generate_risk_assessment
        \<lparr>ad_vulnerabilities = Some ds, ad_risk_score = r\<rparr> ''fintech'')) ''total'' 0 = 34000 \<and>
    timeline_months (generate_risk_assessment
        \<lparr>ad_vulnerabilities = Some ds, ad_risk_score = r\<rparr> ''fintech'')
      = round1 (fdiv (fmul (int_truediv (30 + 28 + 7) 2) (fl (12/10))) 30) \<and>
    timeline_months (generate_risk_assessment
        \<lparr>ad_vulnerabilities = Some ds, ad_risk_score = r\<rparr> ''fintech'') = fl (13/10)"
proof -
  let ?ds = "foldl count_severity [] ds"
  have a: "image_mset sev_of (mset ds) = {#''critical'', ''high'', ''high'', ''medium''#}"
    using assms by simp
  have "set_mset (image_mset sev_of (mset ds))
      = set_mset {#''critical'', ''high'', ''high'', ''medium''#}"
    by (simp only: a)
  then have b: "sev_of ` set ds = {''critical'', ''high'', ''medium''}" by auto
  have d: "map_of ?ds = [''critical'' \<mapsto> 1, ''high'' \<mapsto> 2, ''medium'' \<mapsto> 1]"
    by (rule ext) (simp add: map_of_distribution_mset a b)
  have c: "(\<Sum>v\<leftarrow>ds. cost_of (sev_of v)) = 34000"
    by (simp add: sum_list_sev a table_values)
  have t: "(\<Sum>v\<leftarrow>ds. days_of (sev_of v)) = 65"
    by (simp add: sum_list_sev a table_values)
  have m: "map_of (calculate_remediation_cost ?ds)
      = [''critical'' \<mapsto> 15000, ''high'' \<mapsto> 16000, ''medium'' \<mapsto> 3000, ''total'' \<mapsto> 34000]"
    by (rule ext) (simp add: map_of_remediation_cost c d table_values)
  have g: "dict_get (calculate_remediation_cost ?ds) ''total'' 0 = 34000"
    by (simp add: dict_get_def m)
  have tl: "estimate_timeline ?ds = fl (13/10)"
    unfolding estimate_timeline_alt days_total t by (rule timeline_65)
  have tl2: "estimate_timeline ?ds
      = round1 (fdiv (fmul (int_truediv (30 + 28 + 7) 2) (fl (12/10))) 30)"
    unfolding estimate_timeline_alt days_total t by simp
  show ?thesis
    using d m g tl tl2 by (simp add: generate_risk_assessment_def Let_def)
qed

theorem scenario_C_metrics_witness:
  "mset (map sev_of [vuln_of ''critical'' ''sql_injection'', vuln_of ''high'' ''xss'',
                     vuln_of ''high'' ''ssrf'', vuln_of ''medium'' ''weak_crypto''])
     = {#''critical'', ''high'', ''high'', ''medium''#} \<and>
   dict_get (remediation_cost (generate_risk_assessment
       \<lparr>ad_vulnerabilities = Some [vuln_of ''critical'' ''sql_injection'', vuln_of ''high'' ''xss'',
                     vuln_of ''high'' ''ssrf'', vuln_of ''medium'' ''weak_crypto''],
        ad_risk_score = Some (fl (72/10))\<rparr> ''fintech'')) ''total'' 0 = 34000 \<and>
   timeline_months (generate_risk_assessment
       \<lparr>ad_vulnerabilities = Some [vuln_of ''critical'' ''sql_injection'', vuln_of ''high'' ''xss'',
                     vuln_of ''high'' ''ssrf'', vuln_of ''medium'' ''weak_crypto''],
        ad_risk_score = Some (fl (72/10))\<rparr> ''fintech'') = fl (13/10)"
proof -
  have h: "mset (map sev_of [vuln_of ''critical'' ''sql_injection'', vuln_of ''high'' ''xss'',
                     vuln_of ''high'' ''ssrf'', vuln_of ''medium'' ''weak_crypto''])
     = {#''critical'', ''high'', ''high'', ''medium''#}"
    by (simp add: sev_of_def vuln_get_def vuln_of_def)
  show ?thesis using h scenario_C_metrics [OF h, of "Some (fl (72/10))"] by simp
qed

text \<open>
  Claim C10. The skip tokens are looked for in the whole path string of a file, the scan
  root included: when the path of the scan root contains a skip token, every file is
  skipped, and \<^verbatim>\<open>scan_directory\<close> of a new auditor scans no file and returns no
  finding and the risk score 0.0, whatever the tree holds.
\<close>

theorem root_with_skip_token_scans_nothing:
  assumes "tok \<in> set skip_patterns" and "str_in tok target"
  shows "(\<forall>rel. should_skip_file (full_path target rel)) \<and>
    total_files_scanned
      (fst (scan_directory (fst (init target h)) tree (snd (init target h)))) = 0 \<and>
    findings (fst (scan_directory (fst (init target h)) tree (snd (init target h))))
      (snd (scan_directory (fst (init target h)) tree (snd (init target h)))) = [] \<and>
    AuditResult.risk_score
      (fst (scan_directory (fst (init target h)) tree (snd (init target h)))) = 0"
  using root_token_skips [OF assms] scanned_skip_root [OF assms, of tree]
  by (simp add: scan_directory_alt init_alt found_def findings_def lists_list_extend
      calculate_risk_score_def)

theorem root_with_skip_token_scans_nothing_witness:
  "''build'' \<in> set skip_patterns \<and> str_in ''build'' ''/home/dev/build/proj'' \<and>
   total_files_scanned
      (fst (scan_directory (fst (init ''/home/dev/build/proj'' empty_heap)) [plus_in_literal_file]
         (snd (init ''/home/dev/build/proj'' empty_heap)))) = 0 \<and>
   findings
      (fst (scan_directory (fst (init ''/home/dev/build/proj'' empty_heap)) [plus_in_literal_file]
         (snd (init ''/home/dev/build/proj'' empty_heap))))
      (snd (scan_directory (fst (init ''/home/dev/build/proj'' empty_heap)) [plus_in_literal_file]
         (snd (init ''/home/dev/build/proj'' empty_heap)))) = []"
proof -
  have a: "''build'' \<in> set skip_patterns" by (simp add: skip_patterns_def)
  have b: "str_in ''build'' ''/home/dev/build/proj''" by simp
  show ?thesis
    using a b root_with_skip_token_scans_nothing
      [OF a b, of empty_heap "[plus_in_literal_file]"] by simp
qed

text \<open>
  Claim C1 says that a \<^verbatim>\<open>.js\<close> file with the single line
  \<^verbatim>\<open>query("SELECT * FROM users WHERE id=" + userId)\<close> yields one finding of category
  sql\_injection. The scan yields none: the file is scanned and no pattern of the
  catalog matches the line. The pattern for a query with concatenation wants the
  \<^verbatim>\<open>+\<close> before the quote that closes the literal, as in \<^verbatim>\<open>query("a+b")\<close>, which
  does yield the finding the claim describes.
\<close>

theorem scenario_A_yields_no_finding:
  "scan_file scenario_A_file = [] \<and>
   total_files_scanned
     (fst (scan_directory (fst (init ''proj'' empty_heap)) [scenario_A_file]
        (snd (init ''proj'' empty_heap)))) = 1 \<and>
   findings
     (fst (scan_directory (fst (init ''proj'' empty_heap)) [scenario_A_file]
        (snd (init ''proj'' empty_heap))))
     (snd (scan_directory (fst (init ''proj'' empty_heap)) [scenario_A_file]
        (snd (init ''proj'' empty_heap)))) = [] \<and>
   scan_file plus_in_literal_file =
     [\<lparr>severity = ''critical'', category = ''sql_injection'',
       description = ''Database query with concatenation'',
       file_path = ''app.js'', line_number = 1,
       code_snippet = plus_in_literal_bytes,
       remediation = ''Use parameterized queries or prepared statements.'',
       cwe_id = ''CWE-89'', cvss_score = 9\<rparr>]"
  using found_single [OF eligible_app_js(2)] eligible_app_js(2)
  by (simp add: scan_file_A scan_file_B scan_directory_alt init_alt findings_def
      lists_list_extend scanned_def empty_heap_def)

text \<open>
  Claim C8 says that nothing changes the finding sequence of a result once
  \<^verbatim>\<open>scan_directory\<close> has returned it. A second \<^verbatim>\<open>scan_directory\<close> of the same
  auditor does: the first result then reads two findings where it read one.
\<close>

theorem second_scan_changes_first_result:
  "findings (fst first_scan) (snd second_scan) \<noteq> findings (fst first_scan) (snd first_scan) \<and>
   length (findings (fst first_scan) (snd first_scan)) = 1 \<and>
   length (findings (fst first_scan) (snd second_scan)) = 2"
  by (simp add: first_scan_val second_scan_val scan_file_B)

text \<open>
  Claim C8, amended. The result holds the list object of its auditor. On return its
  findings are what the list held before, followed by the findings of this walk, and
  its risk score is computed from them. A later \<^verbatim>\<open>scan_directory\<close> of the same
  auditor appends the findings of that walk to the findings of the result; one of
  another auditor, and the construction of an auditor, leave them as they are.
\<close>

theorem result_shares_the_auditor_list:
  "findings (fst (scan_directory a tree h)) (snd (scan_directory a tree h))
     = lists h (SecurityAuditor.vulnerabilities a) @ found (target_path a) tree \<and>
   AuditResult.risk_score (fst (scan_directory a tree h))
     = calculate_risk_score
         (findings (fst (scan_directory a tree h)) (snd (scan_directory a tree h))) \<and>
   findings r (snd (scan_directory b tree' h'))
     = (if SecurityAuditor.vulnerabilities b = AuditResult.vulnerabilities r
        then findings r h' @ found (target_path b) tree'
        else findings r h') \<and>
   (AuditResult.vulnerabilities r < limit h' \<longrightarrow>
      findings r (snd (init target h')) = findings r h')"
  by (simp add: scan_directory_alt init_alt findings_def lists_list_extend)

theorem result_shares_the_auditor_list_witness:
  "AuditResult.vulnerabilities (fst first_scan) < limit (snd first_scan) \<and>
   findings (fst first_scan) (snd (init ''other'' (snd first_scan)))
     = findings (fst first_scan) (snd first_scan)"
  using result_shares_the_auditor_list
    [of undefined "[]" undefined "fst first_scan" undefined "[]" "snd first_scan" "''other''"]
  by (simp add: first_scan_val)




end
